theory Spec2Isabelle
  imports Main "HOL-Library.Sublist" "HOL-Library.Word"
begin

section \<open>JavaScript string primitives used by the plug-in\<close>

text \<open>
  Strings are lists of code units. ILP addresses are ASCII, so one \<^typ>\<open>char\<close> per
  code unit is what \<^verbatim>\<open>length\<close> and \<^verbatim>\<open>substring\<close> count in the source.
\<close>

type_synonym Buffer = "8 word list"

text \<open>\<^verbatim>\<open>s.substring(start)\<close>: a start beyond the end is clamped, giving the empty string.\<close>

definition substring :: "string \<Rightarrow> nat \<Rightarrow> string" where
  "substring s start = drop start s"

text \<open>\<^verbatim>\<open>s.split(d)\<close> for a one-character separator: never the empty array.\<close>

fun split_str :: "string \<Rightarrow> char \<Rightarrow> string list" where
  "split_str [] d = [[]]"
| "split_str (c # cs) d =
     (if c = d then [] # split_str cs d
      else (case split_str cs d of [] \<Rightarrow> [[c]] | piece # pieces \<Rightarrow> (c # piece) # pieces))"

text \<open>\<^verbatim>\<open>s.indexOf(pat)\<close>, with \<open>None\<close> for \<^verbatim>\<open>-1\<close>.\<close>

fun indexOf :: "string \<Rightarrow> string \<Rightarrow> nat option" where
  "indexOf [] pat = (if pat = [] then Some 0 else None)"
| "indexOf (c # cs) pat =
     (if prefix pat (c # cs) then Some 0 else map_option Suc (indexOf cs pat))"

text \<open>
  The replacement-text expansion of \<^verbatim>\<open>String.prototype.replace\<close> for a string
  pattern (no capture groups): \<^verbatim>\<open>$$\<close> is a dollar sign, \<^verbatim>\<open>$&\<close> the match,
  \<^verbatim>\<open>$`\<close> the text before it, \<^verbatim>\<open>$'\<close> the text after it; any other
  character, a dollar sign before anything else included, stands for itself.
\<close>

fun GetSubstitution :: "string \<Rightarrow> string \<Rightarrow> string \<Rightarrow> string \<Rightarrow> string" where
  "GetSubstitution matched preceding following (c # d # r) =
     (if c = CHR ''$'' then
        (if d = CHR ''$'' then CHR ''$'' # GetSubstitution matched preceding following r
         else if d = CHR ''&'' then matched @ GetSubstitution matched preceding following r
         else if d = CHR 0x60 then preceding @ GetSubstitution matched preceding following r
         else if d = CHR 0x27 then following @ GetSubstitution matched preceding following r
         else c # GetSubstitution matched preceding following (d # r))
      else c # GetSubstitution matched preceding following (d # r))"
| "GetSubstitution matched preceding following r = r"

text \<open>\<^verbatim>\<open>s.replace(pat, rep)\<close> with a string pattern: the first occurrence only.\<close>

definition replace :: "string \<Rightarrow> string \<Rightarrow> string \<Rightarrow> string" where
  "replace s pat rep =
     (case indexOf s pat of
        None \<Rightarrow> s
      | Some i \<Rightarrow>
          take i s
          @ GetSubstitution pat (take i s) (drop (i + length pat) s) rep
          @ drop (i + length pat) s)"

text \<open>
  \<^verbatim>\<open>const INVALID_SEGMENT = new RegExp('[^A-Za-z0-9_\\-]')\<close>: the test succeeds when
  some character of the string lies outside the class.
\<close>

definition segment_char :: "char \<Rightarrow> bool" where
  "segment_char c =
     (let n = (of_char c :: nat)
      in (65 \<le> n \<and> n \<le> 90) \<or> (97 \<le> n \<and> n \<le> 122) \<or> (48 \<le> n \<and> n \<le> 57)
         \<or> n = 95 \<or> n = 45)"

definition INVALID_SEGMENT_test :: "string \<Rightarrow> bool" where
  "INVALID_SEGMENT_test s = list_ex (\<lambda>c. \<not> segment_char c) s"


text \<open>\<^verbatim>\<open>String(n)\<close> for a non-negative integer: its decimal digits.\<close>

fun String_of :: "nat \<Rightarrow> string" where
  "String_of n =
     (if n < 10 then [''0123456789'' ! n]
      else String_of (n div 10) @ [''0123456789'' ! (n mod 10)])"

section \<open>Data model\<close>

text \<open>Errors raised by the plug-in itself, with the message of the source, and by its collaborators.\<close>

datatype error =
    NotConnected            \<comment> \<open>\<^verbatim>\<open>'plugin is not connected.'\<close>\<close>
  | NoHandlerForIldcp       \<comment> \<open>\<^verbatim>\<open>'data handler must be registered to fetch ildcp'\<close>\<close>
  | InvalidAddressSegment   \<comment> \<open>\<^verbatim>\<open>'invalid address segment'\<close>\<close>
  | FailedToFetch nat       \<comment> \<open>\<^verbatim>\<open>'failed to fetch. code=' + res.status\<close>\<close>
  | InvalidPacket           \<comment> \<open>\<^verbatim>\<open>IlpPacket.deserializeIlpPrepare\<close> threw\<close>
  | EntityTooLarge          \<comment> \<open>\<^verbatim>\<open>raw-body\<close> read more than the limit\<close>
  | InvalidURL              \<comment> \<open>\<^verbatim>\<open>new URL(url)\<close> threw\<close>
  | External string         \<comment> \<open>a collaborator (handler, token issuer, network) failed\<close>

type_synonym PacketHandler = "Buffer \<Rightarrow> error + Buffer"

record IlpPrepare =
  destination :: string

record IldcpResponse =
  clientAddress :: string
  assetScale :: nat
  assetCode :: string

text \<open>The options an \<^verbatim>\<open>Auth\<close> object is built from; the object has no other state here.\<close>

record Auth =
  jwtSecret :: "string option"
  jwtExpiry :: "nat option"
  staticToken :: "string option"

record incoming_opts =
  in_port :: nat
  in_secret :: "string option"
  in_secretToken :: "string option"

record outgoing_opts =
  out_url :: string
  out_secret :: "string option"
  out_secretToken :: "string option"
  out_http2 :: "bool option"
  out_http2MaxRequestsPerSession :: "nat option"
  out_name :: "string option"
  out_sendIlpDestination :: "bool option"
  out_tokenExpiry :: "nat option"

record PluginHttpOpts =
  opt_multi :: "bool option"
  opt_multiDelimiter :: "string option"
  opt_ildcp :: "IldcpResponse option"
  incoming :: incoming_opts
  outgoing :: outgoing_opts

text \<open>
  An \<^verbatim>\<open>Http2Client\<close> object. \<open>handle\<close> is its identity (the number of clients
  created before it), so that two references can be told apart.
\<close>

record Http2Client =
  handle :: nat
  client_origin :: string
  maxRequestsPerSession :: "nat option"
  closed :: bool

record Http2FetchParams =
  http_method :: string
  body :: Buffer
  headers :: "(string \<times> string) list"

record FetchResponse =
  ok :: bool
  status :: nat
  buffer :: Buffer

text \<open>The parts of a parsed \<^verbatim>\<open>URL\<close> object.\<close>

record URL =
  origin :: string
  pathname :: string
  search :: string

text \<open>
  The fields of the class, without the leading underscore. \<open>http2Clients\<close> is the
  object used as a table, in insertion order; \<open>allocated\<close> counts the
  \<^verbatim>\<open>Http2Client\<close> objects created so far; \<open>httpServer\<close> tells whether the listener runs.
\<close>

record PluginHttp =
  connected :: bool
  multi :: bool
  multiDelimiter :: string
  ildcp :: "IldcpResponse option"
  port :: nat
  url :: string
  http2 :: bool
  http2Clients :: "(string \<times> Http2Client) list"
  http2MaxRequestsPerSession :: "nat option"
  name :: string
  sendIlpDestination :: bool
  incomingAuth :: Auth
  outgoingAuth :: Auth
  dataHandler :: "PacketHandler option"
  httpServer :: bool
  allocated :: nat

text \<open>
  The collaborators outside the class: token verification and issuance, the packet
  codecs, the discovery round trip, the URL parser and the two transports. A function
  that can throw returns \<open>None\<close> or \<open>Inl\<close>.
\<close>

record env =
  Auth_verifyToken :: "Auth \<Rightarrow> string \<Rightarrow> bool"
  Auth_getToken :: "Auth \<Rightarrow> error + string"
  deserializeIlpPrepare :: "Buffer \<Rightarrow> IlpPrepare option"
  serializeIldcpResponse :: "IldcpResponse \<Rightarrow> Buffer"
  ILDCP_fetch :: "PacketHandler \<Rightarrow> error + IldcpResponse"
  parseURL :: "string \<Rightarrow> URL option"
  node_fetch :: "string \<Rightarrow> Http2FetchParams \<Rightarrow> error + FetchResponse"
  Http2Client_fetch :: "Http2Client \<Rightarrow> string \<Rightarrow> Http2FetchParams \<Rightarrow> error + FetchResponse"

text \<open>What an operation does to the outside, in the order it does it.\<close>

datatype event =
    EvVerifyToken string
  | EvGetToken
  | EvIldcpFetch
  | EvHandler Buffer
  | EvFetch string Http2FetchParams
  | EvHttp2New nat string "nat option"
  | EvHttp2Fetch nat string Http2FetchParams
  | EvHttp2Close nat
  | EvListen nat
  | EvServerClose
  | EvEmit string

text \<open>An incoming request as the middleware reads it.\<close>

record ctx =
  ctx_method :: string
  ctx_authorization :: string
  ctx_peer_name :: string
  ctx_req :: Buffer

datatype body = Text string | Bytes Buffer

text \<open>
  The outcome of the middleware: a body (sent with status 200), \<^verbatim>\<open>ctx.throw\<close> with a
  status and a message, or an exception that escapes it.
\<close>

datatype response = Respond body | Throw nat string | Raise error

definition MAX_ILP_PACKET_LENGTH :: nat where
  "MAX_ILP_PACKET_LENGTH = 32767"

section \<open>The class\<close>

definition truthy :: "bool option \<Rightarrow> bool" where
  "truthy b = (case b of None \<Rightarrow> False | Some v \<Rightarrow> v)"

definition or_default :: "string option \<Rightarrow> string \<Rightarrow> string" where
  "or_default s d = (case s of None \<Rightarrow> d | Some v \<Rightarrow> if v = [] then d else v)"

definition PluginHttp_new :: "PluginHttpOpts \<Rightarrow> PluginHttp" where
  "PluginHttp_new opts =
     \<lparr> connected = False,
       multi = truthy (opt_multi opts),
       multiDelimiter = or_default (opt_multiDelimiter opts) ''%'',
       ildcp = opt_ildcp opts,
       port = in_port (incoming opts),
       url = out_url (outgoing opts),
       http2 = truthy (out_http2 (outgoing opts)),
       http2Clients = [],
       http2MaxRequestsPerSession = out_http2MaxRequestsPerSession (outgoing opts),
       name = or_default (out_name (outgoing opts)) (String_of (in_port (incoming opts))),
       sendIlpDestination = truthy (out_sendIlpDestination (outgoing opts)),
       incomingAuth = \<lparr> jwtSecret = in_secret (incoming opts), jwtExpiry = None,
                        staticToken = in_secretToken (incoming opts) \<rparr>,
       outgoingAuth = \<lparr> jwtSecret = out_secret (outgoing opts),
                        jwtExpiry = out_tokenExpiry (outgoing opts),
                        staticToken = out_secretToken (outgoing opts) \<rparr>,
       dataHandler = None,
       httpServer = False,
       allocated = 0 \<rparr>"

definition verifyToken :: "env \<Rightarrow> PluginHttp \<Rightarrow> string \<Rightarrow> bool" where
  "verifyToken E p token = Auth_verifyToken E (incomingAuth p) token"

definition getToken :: "env \<Rightarrow> PluginHttp \<Rightarrow> error + string" where
  "getToken E p = Auth_getToken E (outgoingAuth p)"

definition fetchIldcp :: "env \<Rightarrow> PluginHttp \<Rightarrow> (error + IldcpResponse) \<times> PluginHttp \<times> event list" where
  "fetchIldcp E p =
     (case ildcp p of
        None \<Rightarrow>
          (case dataHandler p of
             Some h \<Rightarrow>
               (case ILDCP_fetch E h of
                  Inl e \<Rightarrow> (Inl e, p, [EvIldcpFetch])
                | Inr r \<Rightarrow> (Inr r, p\<lparr>ildcp := Some r\<rparr>, [EvIldcpFetch]))
           | None \<Rightarrow> (Inl NoHandlerForIldcp, p, []))
      | Some r \<Rightarrow> (Inr r, p, []))"

text \<open>The routing key of \<^verbatim>\<open>_generateUrl\<close>: \<^verbatim>\<open>destination.substring(n + 1).split('.')[0]\<close>.\<close>

definition segment_of :: "string \<Rightarrow> string \<Rightarrow> string" where
  "segment_of address dest =
     (case split_str (substring dest (length address + 1)) CHR ''.'' of
        [] \<Rightarrow> []
      | s # _ \<Rightarrow> s)"

definition generateUrl :: "env \<Rightarrow> PluginHttp \<Rightarrow> string \<Rightarrow> (error + string) \<times> PluginHttp \<times> event list" where
  "generateUrl E p dest =
     (case fetchIldcp E p of
        (Inl e, p', evs) \<Rightarrow> (Inl e, p', evs)
      | (Inr i, p', evs) \<Rightarrow>
          (let segment = segment_of (clientAddress i) dest
           in if INVALID_SEGMENT_test segment then (Inl InvalidAddressSegment, p', evs)
              else (Inr (replace (url p') (multiDelimiter p') segment), p', evs)))"


text \<open>
  Modelled from the spec: the class \<^verbatim>\<open>Http2Client\<close> of \<^verbatim>\<open>./lib/http2\<close> is not part
  of the sources at hand. Its constructor gives an open session handle for an origin,
  bounded by the per-session request limit; \<^verbatim>\<open>close()\<close> closes that session.
\<close>

definition Http2Client_new :: "nat \<Rightarrow> string \<Rightarrow> nat option \<Rightarrow> Http2Client" where
  "Http2Client_new h orig lim =
     \<lparr> handle = h, client_origin = orig, maxRequestsPerSession = lim, closed = False \<rparr>"

definition close :: "Http2Client \<Rightarrow> Http2Client" where
  "close c = c\<lparr>closed := True\<rparr>"

text \<open>
  \<^verbatim>\<open>_getHttp2ClientForOrigin\<close>. The table is keyed by the \<^verbatim>\<open>origin\<close> of a parsed URL,
  which is \<^verbatim>\<open>null\<close> or has the form \<^verbatim>\<open>scheme://host\<close>, so no key meets a property that an
  object inherits.
\<close>

definition getHttp2ClientForOrigin :: "PluginHttp \<Rightarrow> string \<Rightarrow> Http2Client \<times> PluginHttp \<times> event list" where
  "getHttp2ClientForOrigin p orig =
     (case map_of (http2Clients p) orig of
        None \<Rightarrow>
          (let c = Http2Client_new (allocated p) orig (http2MaxRequestsPerSession p)
           in (c,
               p\<lparr>http2Clients := http2Clients p @ [(orig, c)], allocated := Suc (allocated p)\<rparr>,
               [EvHttp2New (allocated p) orig (http2MaxRequestsPerSession p)]))
      | Some c \<Rightarrow> (c, p, []))"

definition fetch :: "env \<Rightarrow> PluginHttp \<Rightarrow> string \<Rightarrow> Http2FetchParams \<Rightarrow> (error + FetchResponse) \<times> PluginHttp \<times> event list" where
  "fetch E p u opts =
     (if http2 p then
        (case parseURL E u of
           None \<Rightarrow> (Inl InvalidURL, p, [])
         | Some parsed \<Rightarrow>
             (case getHttp2ClientForOrigin p (origin parsed) of
                (c, p', evs) \<Rightarrow>
                  (Http2Client_fetch E c (pathname parsed) opts, p',
                   evs @ [EvHttp2Fetch (handle c) (pathname parsed) opts])))
      else (node_fetch E u opts, p, [EvFetch u opts]))"

text \<open>Lines 233 to 244 of \<^verbatim>\<open>sendData\<close>: the URL and the headers of the request.\<close>

definition resolveUrl :: "env \<Rightarrow> PluginHttp \<Rightarrow> Buffer \<Rightarrow> (string \<times> string) list \<Rightarrow> (error + string \<times> (string \<times> string) list) \<times> PluginHttp \<times> event list" where
  "resolveUrl E p data hs =
     (if multi p \<or> sendIlpDestination p then
        (case deserializeIlpPrepare E data of
           None \<Rightarrow> (Inl InvalidPacket, p, [])
         | Some parsed \<Rightarrow>
             (let hs' = (if sendIlpDestination p
                         then hs @ [(''ILP-Destination'', destination parsed)] else hs)
              in if multi p then
                   (case generateUrl E p (destination parsed) of
                      (Inl e, p', evs) \<Rightarrow> (Inl e, p', evs)
                    | (Inr u, p', evs) \<Rightarrow> (Inr (u, hs'), p', evs))
                 else (Inr (url p, hs'), p, [])))
      else (Inr (url p, hs), p, []))"

definition sendData :: "env \<Rightarrow> PluginHttp \<Rightarrow> Buffer \<Rightarrow> (error + Buffer) \<times> PluginHttp \<times> event list" where
  "sendData E p data =
     (if \<not> connected p then (Inl NotConnected, p, [])
      else
        (case getToken E p of
           Inl e \<Rightarrow> (Inl e, p, [EvGetToken])
         | Inr token \<Rightarrow>
             (case resolveUrl E p data
                     [(''Authorization'', token),
                      (''Content-Type'', ''application/ilp+octet-stream''),
                      (''ILP-Peer-Name'', name p)] of
                (Inl e, p', evs) \<Rightarrow> (Inl e, p', EvGetToken # evs)
              | (Inr (u, hs), p', evs) \<Rightarrow>
                  (case fetch E p' u \<lparr> http_method = ''POST'', body = data, headers = hs \<rparr> of
                     (Inl e, p'', evs') \<Rightarrow> (Inl e, p'', EvGetToken # evs @ evs')
                   | (Inr res, p'', evs') \<Rightarrow>
                       (if \<not> ok res
                        then (Inl (FailedToFetch (status res)), p'', EvGetToken # evs @ evs')
                        else (Inr (buffer res), p'', EvGetToken # evs @ evs'))))))"

text \<open>Lines 139 to 144 of the middleware: the hand-over to the registered handler.\<close>

definition dispatch :: "PluginHttp \<Rightarrow> Buffer \<Rightarrow> response \<times> PluginHttp \<times> event list" where
  "dispatch p packet =
     (case dataHandler p of
        None \<Rightarrow> (Throw 502 ''no handler registered.'', p, [])
      | Some h \<Rightarrow>
          (case h packet of
             Inl e \<Rightarrow> (Raise e, p, [EvHandler packet])
           | Inr b \<Rightarrow> (Respond (Bytes b), p, [EvHandler packet])))"

text \<open>The middleware that \<^verbatim>\<open>connect\<close> installs, run on one request.\<close>

definition middleware :: "env \<Rightarrow> PluginHttp \<Rightarrow> ctx \<Rightarrow> response \<times> PluginHttp \<times> event list" where
  "middleware E p c =
     (if ctx_method c = ''GET'' then (Respond (Text ''OK''), p, [])
      else if \<not> verifyToken E p (ctx_authorization c)
        then (Throw 401 ''invalid authorization'', p, [EvVerifyToken (ctx_authorization c)])
      else if \<not> connected p
        then (Throw 502 ''server is closed'', p, [EvVerifyToken (ctx_authorization c)])
      else if MAX_ILP_PACKET_LENGTH < length (ctx_req c)
        then (Raise EntityTooLarge, p, [EvVerifyToken (ctx_authorization c)])
      else
        (let packet = ctx_req c;
             general = (case dispatch p packet of
                          (r, p', evs) \<Rightarrow> (r, p', EvVerifyToken (ctx_authorization c) # evs))
         in if multi p then
              (case deserializeIlpPrepare E packet of
                 None \<Rightarrow> (Raise InvalidPacket, p, [EvVerifyToken (ctx_authorization c)])
               | Some parsed \<Rightarrow>
                   (if destination parsed = ''peer.config'' then
                      (case fetchIldcp E p of
                         (Inl e, p', evs) \<Rightarrow>
                           (Raise e, p', EvVerifyToken (ctx_authorization c) # evs)
                       | (Inr i, p', evs) \<Rightarrow>
                           (Respond (Bytes (serializeIldcpResponse E
                              (i\<lparr>clientAddress := clientAddress i @ ''.'' @ ctx_peer_name c\<rparr>))),
                            p', EvVerifyToken (ctx_authorization c) # evs))
                    else general))
            else general))"

definition connect :: "PluginHttp \<Rightarrow> PluginHttp \<times> event list" where
  "connect p =
     (if connected p then (p, [])
      else (p\<lparr>httpServer := True, connected := True\<rparr>, [EvListen (port p), EvEmit ''connect'']))"

text \<open>The loop of \<^verbatim>\<open>disconnect\<close> over \<^verbatim>\<open>Object.values(this._http2Clients)\<close>.\<close>

fun closeAll :: "(string \<times> Http2Client) list \<Rightarrow> (string \<times> Http2Client) list \<times> event list" where
  "closeAll [] = ([], [])"
| "closeAll ((orig, c) # rest) =
     (case closeAll rest of
        (rest', evs) \<Rightarrow> ((orig, close c) # rest', EvHttp2Close (handle c) # evs))"

definition disconnect :: "PluginHttp \<Rightarrow> PluginHttp \<times> event list" where
  "disconnect p =
     (if \<not> connected p then (p, [])
      else
        (case closeAll (http2Clients p) of
           (clients, evs) \<Rightarrow>
             (p\<lparr>http2Clients := clients, connected := False, httpServer := False\<rparr>,
              evs @ [EvServerClose, EvEmit ''disconnect''])))"

definition isConnected :: "PluginHttp \<Rightarrow> bool" where
  "isConnected p = connected p"

definition registerDataHandler :: "PluginHttp \<Rightarrow> PacketHandler \<Rightarrow> PluginHttp" where
  "registerDataHandler p h = p\<lparr>dataHandler := Some h\<rparr>"

definition deregisterDataHandler :: "PluginHttp \<Rightarrow> PluginHttp" where
  "deregisterDataHandler p = p\<lparr>dataHandler := None\<rparr>"

definition registerMoneyHandler :: "PluginHttp \<Rightarrow> PluginHttp" where
  "registerMoneyHandler p = p"

definition deregisterMoneyHandler :: "PluginHttp \<Rightarrow> PluginHttp" where
  "deregisterMoneyHandler p = p"

definition sendMoney :: "PluginHttp \<Rightarrow> PluginHttp" where
  "sendMoney p = p"

section \<open>Histories of the plug-in\<close>

datatype operation =
    Connect
  | Disconnect
  | SendData Buffer
  | Request ctx
  | RegisterDataHandler PacketHandler
  | DeregisterDataHandler
  | RegisterMoneyHandler
  | DeregisterMoneyHandler
  | SendMoney

fun step :: "env \<Rightarrow> PluginHttp \<Rightarrow> operation \<Rightarrow> PluginHttp" where
  "step E p Connect = fst (connect p)"
| "step E p Disconnect = fst (disconnect p)"
| "step E p (SendData data) = fst (snd (sendData E p data))"
| "step E p (Request c) = fst (snd (middleware E p c))"
| "step E p (RegisterDataHandler h) = registerDataHandler p h"
| "step E p DeregisterDataHandler = deregisterDataHandler p"
| "step E p RegisterMoneyHandler = registerMoneyHandler p"
| "step E p DeregisterMoneyHandler = deregisterMoneyHandler p"
| "step E p SendMoney = sendMoney p"

text \<open>The state after a history of operations on a freshly constructed plug-in.\<close>

definition run :: "env \<Rightarrow> PluginHttpOpts \<Rightarrow> operation list \<Rightarrow> PluginHttp" where
  "run E opts ops = foldl (step E) (PluginHttp_new opts) ops"


section \<open>A sample environment\<close>

text \<open>
  Concrete collaborators, used to run the model on concrete inputs: a static-token
  authority, a toy wire format (a type tag, 12 for Prepare and 13 for a discovery
  response, followed by the bytes of the address), a splitter for plain absolute URLs
  \<^verbatim>\<open>scheme://authority/path?query\<close>, and a peer that echoes a non-empty body with status
  200 and answers an empty one with status 400.
\<close>

definition sample_bytes :: "string \<Rightarrow> Buffer" where
  "sample_bytes s = map (\<lambda>c. of_nat (of_char c)) s"

definition sample_chars :: "Buffer \<Rightarrow> string" where
  "sample_chars b = map (\<lambda>w. char_of (unat w)) b"

definition sample_prepare :: "string \<Rightarrow> Buffer" where
  "sample_prepare dest = 12 # sample_bytes dest"

definition sample_deserialize :: "Buffer \<Rightarrow> IlpPrepare option" where
  "sample_deserialize b =
     (case b of
        [] \<Rightarrow> None
      | t # rest \<Rightarrow> if t = 12 then Some \<lparr> destination = sample_chars rest \<rparr> else None)"

definition sample_serializeIldcp :: "IldcpResponse \<Rightarrow> Buffer" where
  "sample_serializeIldcp r = 13 # sample_bytes (clientAddress r)"

definition sample_ILDCP_fetch :: "PacketHandler \<Rightarrow> error + IldcpResponse" where
  "sample_ILDCP_fetch h =
     (case h (sample_prepare ''peer.config'') of
        Inl e \<Rightarrow> Inl e
      | Inr b \<Rightarrow>
          (case b of
             [] \<Rightarrow> Inl (External ''empty reply'')
           | t # rest \<Rightarrow>
               if t = 13
               then Inr \<lparr> clientAddress = sample_chars rest, assetScale = 9, assetCode = ''XRP'' \<rparr>
               else Inl (External ''rejected'')))"

definition sample_parseURL :: "string \<Rightarrow> URL option" where
  "sample_parseURL u =
     (case indexOf u ''://'' of
        None \<Rightarrow> None
      | Some i \<Rightarrow>
          (let rest = drop (i + 3) u;
               authority = takeWhile (\<lambda>c. c \<notin> set ''/?#'') rest;
               tail = dropWhile (\<lambda>c. c \<notin> set ''/?#'') rest;
               path = takeWhile (\<lambda>c. c \<notin> set ''?#'') tail;
               query = takeWhile (\<lambda>c. c \<noteq> CHR ''#'') (dropWhile (\<lambda>c. c \<notin> set ''?#'') tail)
           in if i = 0 \<or> authority = [] then None
              else Some \<lparr> origin = take i u @ ''://'' @ authority,
                          pathname = (if path = [] then ''/'' else path),
                          search = (if query = ''?'' then [] else query) \<rparr>))"

definition sample_peer :: "Http2FetchParams \<Rightarrow> error + FetchResponse" where
  "sample_peer opts =
     (if body opts = [] then Inr \<lparr> ok = False, status = 400, buffer = [] \<rparr>
      else Inr \<lparr> ok = True, status = 200, buffer = body opts \<rparr>)"

definition sample_env :: env where
  "sample_env =
     \<lparr> Auth_verifyToken = (\<lambda>a token. staticToken a = Some token),
       Auth_getToken = (\<lambda>a. case staticToken a of
                               None \<Rightarrow> Inl (External ''no token'')
                             | Some t \<Rightarrow> Inr t),
       deserializeIlpPrepare = sample_deserialize,
       serializeIldcpResponse = sample_serializeIldcp,
       ILDCP_fetch = sample_ILDCP_fetch,
       parseURL = sample_parseURL,
       node_fetch = (\<lambda>u opts. sample_peer opts),
       Http2Client_fetch = (\<lambda>c path opts. sample_peer opts) \<rparr>"

definition sample_opts :: "bool \<Rightarrow> bool \<Rightarrow> string \<Rightarrow> IldcpResponse option \<Rightarrow> PluginHttpOpts" where
  "sample_opts m h2 u i =
     \<lparr> opt_multi = Some m, opt_multiDelimiter = None, opt_ildcp = i,
       incoming = \<lparr> in_port = 8080, in_secret = None, in_secretToken = Some ''in-token'' \<rparr>,
       outgoing = \<lparr> out_url = u, out_secret = None, out_secretToken = Some ''out-token'',
                    out_http2 = Some h2, out_http2MaxRequestsPerSession = None,
                    out_name = None, out_sendIlpDestination = None, out_tokenExpiry = None \<rparr> \<rparr>"

definition sample_ildcp :: IldcpResponse where
  "sample_ildcp = \<lparr> clientAddress = ''g.node1'', assetScale = 9, assetCode = ''XRP'' \<rparr>"

text \<open>A handler that answers every packet with a Fulfill-like buffer.\<close>

definition sample_handler :: PacketHandler where
  "sample_handler b = Inr [13, 1, 2, 3]"


text \<open>A connected plug-in built from the sample options, and a request to it.\<close>

definition sample_plugin :: "bool \<Rightarrow> bool \<Rightarrow> string \<Rightarrow> IldcpResponse option \<Rightarrow> PluginHttp" where
  "sample_plugin m h2 u i = fst (connect (PluginHttp_new (sample_opts m h2 u i)))"

definition sample_ctx :: "string \<Rightarrow> string \<Rightarrow> Buffer \<Rightarrow> ctx" where
  "sample_ctx m token b =
     \<lparr> ctx_method = m, ctx_authorization = token, ctx_peer_name = ''bob'', ctx_req = b \<rparr>"

text \<open>The events that reach the network: a request, or a session being opened.\<close>

fun network_event :: "event \<Rightarrow> bool" where
  "network_event (EvFetch u opts) = True"
| "network_event (EvHttp2New h orig lim) = True"
| "network_event (EvHttp2Fetch h path opts) = True"
| "network_event e = False"

text \<open>The session table reduced to identities: which handle is stored under which origin.\<close>

definition handles :: "PluginHttp \<Rightarrow> (string \<times> nat) list" where
  "handles p = map (\<lambda>(orig, c). (orig, handle c)) (http2Clients p)"

text \<open>
  The state of the session table: every origin and every handle occurs once, every handle
  was allocated earlier, every client is stored under the origin it was created for, and
  the table holds as many clients as were ever created.
\<close>

definition pool_inv :: "PluginHttp \<Rightarrow> bool" where
  "pool_inv p \<longleftrightarrow>
     distinct (map fst (handles p)) \<and> distinct (map snd (handles p))
     \<and> list_all (\<lambda>(orig, h). h < allocated p) (handles p)
     \<and> list_all (\<lambda>(orig, c). client_origin c = orig) (http2Clients p)
     \<and> length (http2Clients p) = allocated p"

text \<open>
  What one operation may do to the table: nothing to its identities, or add one origin
  that was absent, with the next fresh handle.
\<close>

definition pool_grows :: "PluginHttp \<Rightarrow> PluginHttp \<Rightarrow> bool" where
  "pool_grows p p' \<longleftrightarrow>
     http2 p' = http2 p
     \<and> list_all (\<lambda>(orig, c). client_origin c = orig) (http2Clients p)
         = list_all (\<lambda>(orig, c). client_origin c = orig) (http2Clients p')
     \<and> ((handles p' = handles p \<and> allocated p' = allocated p)
        \<or> (\<exists>orig. orig \<notin> fst ` set (handles p)
                   \<and> handles p' = handles p @ [(orig, allocated p)]
                   \<and> allocated p' = Suc (allocated p)))"

section \<open>Properties\<close>

subsection \<open>Facts about the sample environment\<close>

lemma sample_chars_bytes: "sample_chars (sample_bytes s) = s"
  by (induction s) (simp_all add: sample_chars_def sample_bytes_def unat_of_nat)

lemma sample_deserialize_prepare:
  "sample_deserialize (sample_prepare d) = Some \<lparr> destination = d \<rparr>"
  by (simp add: sample_deserialize_def sample_prepare_def sample_chars_bytes)

lemma sample_prepare_nonempty: "sample_prepare d \<noteq> []"
  by (simp add: sample_prepare_def)

lemma sample_plugin_eq:
  "sample_plugin m h2 u i =
     (PluginHttp_new (sample_opts m h2 u i))\<lparr>httpServer := True, connected := True\<rparr>"
  by (simp add: sample_plugin_def connect_def PluginHttp_new_def)

lemma sample_new_fields:
  "connected (PluginHttp_new opts) = False"
  "multi (PluginHttp_new (sample_opts m h2 u i)) = m"
  "http2 (PluginHttp_new (sample_opts m h2 u i)) = h2"
  "url (PluginHttp_new (sample_opts m h2 u i)) = u"
  "ildcp (PluginHttp_new (sample_opts m h2 u i)) = i"
  "multiDelimiter (PluginHttp_new (sample_opts m h2 u i)) = ''%''"
  "sendIlpDestination (PluginHttp_new (sample_opts m h2 u i)) = False"
  "dataHandler (PluginHttp_new opts) = None"
  "http2Clients (PluginHttp_new opts) = []"
  "allocated (PluginHttp_new opts) = 0"
  "http2MaxRequestsPerSession (PluginHttp_new (sample_opts m h2 u i)) = None"
  by (simp_all add: PluginHttp_new_def sample_opts_def truthy_def or_default_def)

lemma sample_tokens:
  "verifyToken sample_env (PluginHttp_new (sample_opts m h2 u i)) token = (token = ''in-token'')"
  "getToken sample_env (PluginHttp_new (sample_opts m h2 u i)) = Inr ''out-token''"
  by (auto simp add: verifyToken_def getToken_def sample_env_def PluginHttp_new_def sample_opts_def)

lemma sample_env_fields:
  "deserializeIlpPrepare sample_env = sample_deserialize"
  "serializeIldcpResponse sample_env = sample_serializeIldcp"
  "ILDCP_fetch sample_env = sample_ILDCP_fetch"
  "parseURL sample_env = sample_parseURL"
  "node_fetch sample_env = (\<lambda>u opts. sample_peer opts)"
  "Http2Client_fetch sample_env = (\<lambda>c path opts. sample_peer opts)"
  by (simp_all add: sample_env_def)

lemma sample_plugin_fields:
  "connected (sample_plugin m h2 u i) = True"
  "multi (sample_plugin m h2 u i) = m"
  "http2 (sample_plugin m h2 u i) = h2"
  "url (sample_plugin m h2 u i) = u"
  "ildcp (sample_plugin m h2 u i) = i"
  "multiDelimiter (sample_plugin m h2 u i) = ''%''"
  "sendIlpDestination (sample_plugin m h2 u i) = False"
  "dataHandler (sample_plugin m h2 u i) = None"
  "http2Clients (sample_plugin m h2 u i) = []"
  "allocated (sample_plugin m h2 u i) = 0"
  "http2MaxRequestsPerSession (sample_plugin m h2 u i) = None"
  by (simp_all add: sample_plugin_eq sample_new_fields)

lemma String_of_8080: "String_of 8080 = ''8080''"
  by simp

lemma sample_plugin_name: "name (sample_plugin m h2 u i) = ''8080''"
  by (simp add: sample_plugin_eq PluginHttp_new_def sample_opts_def or_default_def String_of_8080 del: String_of.simps)

lemma sample_plugin_tokens:
  "verifyToken sample_env (sample_plugin m h2 u i) token = (token = ''in-token'')"
  "getToken sample_env (sample_plugin m h2 u i) = Inr ''out-token''"
  "verifyToken sample_env (registerDataHandler (sample_plugin m h2 u i) h) token = (token = ''in-token'')"
  "getToken sample_env (registerDataHandler (sample_plugin m h2 u i) h) = Inr ''out-token''"
  using sample_tokens [of m h2 u i]
  by (simp_all add: verifyToken_def getToken_def sample_plugin_eq registerDataHandler_def)

lemma sample_fetchIldcp_cached:
  "fetchIldcp sample_env (sample_plugin m h2 u (Some i)) = (Inr i, sample_plugin m h2 u (Some i), [])"
  by (simp add: fetchIldcp_def sample_plugin_fields)

lemma sample_parseURL_ilp:
  "sample_parseURL ''https://example.com/ilp?tenant=a''
   = Some \<lparr> origin = ''https://example.com'', pathname = ''/ilp'', search = ''?tenant=a'' \<rparr>"
  by (simp add: sample_parseURL_def Let_def)

lemma sample_resolveUrl_single:
  "resolveUrl sample_env (sample_plugin False h2 u i) data hs
   = (Inr (u, hs), sample_plugin False h2 u i, [])"
  by (simp add: resolveUrl_def sample_plugin_fields)

lemma sample_parseURL_paths:
  "sample_parseURL ''https://example.com/ilp''
   = Some \<lparr> origin = ''https://example.com'', pathname = ''/ilp'', search = [] \<rparr>"
  "sample_parseURL ''https://example.com/b?x=1''
   = Some \<lparr> origin = ''https://example.com'', pathname = ''/b'', search = ''?x=1'' \<rparr>"
  "sample_parseURL ''https://other.org/ilp''
   = Some \<lparr> origin = ''https://other.org'', pathname = ''/ilp'', search = [] \<rparr>"
  by (simp_all add: sample_parseURL_def Let_def)

lemma sample_run_connect:
  "run sample_env (sample_opts m h2 u i) [Connect] = sample_plugin m h2 u i"
  by (simp add: run_def sample_plugin_def)

lemma sample_sendData_http2:
  "sendData sample_env (sample_plugin False True ''https://example.com/ilp'' None)
     (sample_prepare ''g.alice'')
   = (Inr (sample_prepare ''g.alice''),
      (sample_plugin False True ''https://example.com/ilp'' None)
        \<lparr>http2Clients := [(''https://example.com'', Http2Client_new 0 ''https://example.com'' None)],
         allocated := Suc 0\<rparr>,
      [EvGetToken, EvHttp2New 0 ''https://example.com'' None,
       EvHttp2Fetch 0 ''/ilp''
         \<lparr> http_method = ''POST'', body = sample_prepare ''g.alice'',
           headers = [(''Authorization'', ''out-token''),
                      (''Content-Type'', ''application/ilp+octet-stream''),
                      (''ILP-Peer-Name'', ''8080'')] \<rparr>])"
  by (simp add: sendData_def sample_plugin_fields sample_plugin_tokens sample_plugin_name
        sample_resolveUrl_single fetch_def sample_env_fields sample_parseURL_paths
        getHttp2ClientForOrigin_def Let_def sample_peer_def sample_prepare_nonempty
        Http2Client_new_def)

subsection \<open>The health probe\<close>

text \<open>
  C4. A request with method GET is answered with the body \<^verbatim>\<open>OK\<close> (status 200) whatever
  the authorization header, the connection state and the handler slot are. Nothing else
  happens: the state is unchanged and no token is verified, so the check comes before
  authentication.
\<close>

theorem health_probe_always_ok:
  "ctx_method c = ''GET'' \<Longrightarrow> middleware E p c = (Respond (Text ''OK''), p, [])"
  by (simp add: middleware_def)

theorem health_probe_always_ok_witness:
  "ctx_method (sample_ctx ''GET'' ''wrong'' []) = ''GET''
   \<and> \<not> verifyToken sample_env (PluginHttp_new (sample_opts False False ''https://example.com/ilp'' None)) ''wrong''
   \<and> \<not> connected (PluginHttp_new (sample_opts False False ''https://example.com/ilp'' None))
   \<and> dataHandler (PluginHttp_new (sample_opts False False ''https://example.com/ilp'' None)) = None
   \<and> middleware sample_env (PluginHttp_new (sample_opts False False ''https://example.com/ilp'' None))
        (sample_ctx ''GET'' ''wrong'' [])
      = (Respond (Text ''OK''),
         PluginHttp_new (sample_opts False False ''https://example.com/ilp'' None), [])"
  using health_probe_always_ok [of "sample_ctx ''GET'' ''wrong'' []" sample_env
      "PluginHttp_new (sample_opts False False ''https://example.com/ilp'' None)"]
  by (simp add: sample_ctx_def sample_tokens sample_new_fields)

subsection \<open>The disconnected state\<close>

text \<open>
  C3. While the plug-in is disconnected, an authenticated request other than the health
  probe is answered with status 502, whether or not a handler is registered and without
  calling it, and \<^verbatim>\<open>sendData\<close> fails at once: no token is asked for and the network
  is not touched.
\<close>

theorem disconnected_fails:
  assumes "\<not> connected p"
  shows "(ctx_method c \<noteq> ''GET'' \<and> verifyToken E p (ctx_authorization c) \<longrightarrow>
            middleware E p c
            = (Throw 502 ''server is closed'', p, [EvVerifyToken (ctx_authorization c)]))
         \<and> sendData E p data = (Inl NotConnected, p, [])"
  using assms by (simp add: middleware_def sendData_def)

theorem disconnected_fails_witness:
  "\<not> connected (registerDataHandler (PluginHttp_new (sample_opts False False ''https://example.com/ilp'' None)) sample_handler)
   \<and> dataHandler (registerDataHandler (PluginHttp_new (sample_opts False False ''https://example.com/ilp'' None)) sample_handler)
       = Some sample_handler
   \<and> ctx_method (sample_ctx ''POST'' ''in-token'' (sample_prepare ''g.node1.alice'')) \<noteq> ''GET''
   \<and> verifyToken sample_env
        (registerDataHandler (PluginHttp_new (sample_opts False False ''https://example.com/ilp'' None)) sample_handler)
        (ctx_authorization (sample_ctx ''POST'' ''in-token'' (sample_prepare ''g.node1.alice'')))
   \<and> fst (middleware sample_env
        (registerDataHandler (PluginHttp_new (sample_opts False False ''https://example.com/ilp'' None)) sample_handler)
        (sample_ctx ''POST'' ''in-token'' (sample_prepare ''g.node1.alice'')))
      = Throw 502 ''server is closed''
   \<and> fst (sendData sample_env
        (registerDataHandler (PluginHttp_new (sample_opts False False ''https://example.com/ilp'' None)) sample_handler)
        (sample_prepare ''g.node1.alice''))
      = Inl NotConnected"
  using disconnected_fails [of
      "registerDataHandler (PluginHttp_new (sample_opts False False ''https://example.com/ilp'' None)) sample_handler"
      "sample_ctx ''POST'' ''in-token'' (sample_prepare ''g.node1.alice'')" sample_env
      "sample_prepare ''g.node1.alice''"]
  by (simp add: registerDataHandler_def sample_ctx_def sample_new_fields verifyToken_def
        sample_env_def PluginHttp_new_def sample_opts_def)

subsection \<open>Multi-tenant requests are read as Prepare packets first\<close>

text \<open>
  C10. In multi-tenant mode the body of an authenticated request other than the health
  probe is deserialized as a Prepare packet before the handler slot is looked at. A body
  that is not a Prepare packet never reaches the handler: the request fails, no handler
  call and no discovery round trip happen, and once the body has been read the failure
  is the deserialization error, also when no handler is registered.
\<close>

theorem multi_invalid_prepare_not_dispatched:
  assumes "multi p" and "ctx_method c \<noteq> ''GET''"
    and "verifyToken E p (ctx_authorization c)"
    and "deserializeIlpPrepare E (ctx_req c) = None"
  shows "(\<forall>b. fst (middleware E p c) \<noteq> Respond b)
         \<and> (\<forall>b. EvHandler b \<notin> set (snd (snd (middleware E p c))))
         \<and> EvIldcpFetch \<notin> set (snd (snd (middleware E p c)))
         \<and> (connected p \<and> length (ctx_req c) \<le> MAX_ILP_PACKET_LENGTH \<longrightarrow>
              middleware E p c
              = (Raise InvalidPacket, p, [EvVerifyToken (ctx_authorization c)]))"
  using assms by (simp add: middleware_def)

theorem multi_invalid_prepare_not_dispatched_witness:
  "multi (registerDataHandler (sample_plugin True False ''https://example.com/%/ilp'' (Some sample_ildcp)) sample_handler)
   \<and> dataHandler (registerDataHandler (sample_plugin True False ''https://example.com/%/ilp'' (Some sample_ildcp)) sample_handler)
       = Some sample_handler
   \<and> ctx_method (sample_ctx ''POST'' ''in-token'' [13, 1, 2, 3]) \<noteq> ''GET''
   \<and> verifyToken sample_env
        (registerDataHandler (sample_plugin True False ''https://example.com/%/ilp'' (Some sample_ildcp)) sample_handler)
        (ctx_authorization (sample_ctx ''POST'' ''in-token'' [13, 1, 2, 3]))
   \<and> deserializeIlpPrepare sample_env (ctx_req (sample_ctx ''POST'' ''in-token'' [13, 1, 2, 3])) = None
   \<and> middleware sample_env
        (registerDataHandler (sample_plugin True False ''https://example.com/%/ilp'' (Some sample_ildcp)) sample_handler)
        (sample_ctx ''POST'' ''in-token'' [13, 1, 2, 3])
      = (Raise InvalidPacket,
         registerDataHandler (sample_plugin True False ''https://example.com/%/ilp'' (Some sample_ildcp)) sample_handler,
         [EvVerifyToken ''in-token''])"
  using multi_invalid_prepare_not_dispatched [of
      "registerDataHandler (sample_plugin True False ''https://example.com/%/ilp'' (Some sample_ildcp)) sample_handler"
      "sample_ctx ''POST'' ''in-token'' [13, 1, 2, 3]" sample_env]
  by (simp add: registerDataHandler_def sample_ctx_def sample_plugin_fields sample_plugin_tokens [unfolded registerDataHandler_def]
        sample_env_fields sample_deserialize_def MAX_ILP_PACKET_LENGTH_def)

subsection \<open>The discovery interception\<close>

text \<open>
  C2, as amended. In multi-tenant mode, for an authenticated request other than the health
  probe that arrives while connected, with a body within the size limit that deserializes
  to a Prepare packet: when the destination is exactly \<^verbatim>\<open>peer.config\<close> and the
  configuration is cached, the answer is the serialized discovery response whose client
  address is the cached address, a dot and the peer-name header, with no handler call;
  when nothing is cached the discovery round trip goes through the registered handler,
  its result is cached and answered in the same way, and without a handler the request
  fails with the configuration error. For any other destination the request goes to
  general dispatch.
\<close>

theorem discovery_interception:
  assumes "multi p" and "connected p" and "ctx_method c \<noteq> ''GET''"
    and "verifyToken E p (ctx_authorization c)"
    and "length (ctx_req c) \<le> MAX_ILP_PACKET_LENGTH"
    and "deserializeIlpPrepare E (ctx_req c) = Some parsed"
  shows "(destination parsed = ''peer.config'' \<longrightarrow>
           (case ildcp p of
              Some i \<Rightarrow>
                middleware E p c
                = (Respond (Bytes (serializeIldcpResponse E
                     (i\<lparr>clientAddress := clientAddress i @ ''.'' @ ctx_peer_name c\<rparr>))),
                   p, [EvVerifyToken (ctx_authorization c)])
            | None \<Rightarrow>
                (case dataHandler p of
                   None \<Rightarrow>
                     middleware E p c
                     = (Raise NoHandlerForIldcp, p, [EvVerifyToken (ctx_authorization c)])
                 | Some h \<Rightarrow>
                     (case ILDCP_fetch E h of
                        Inl e \<Rightarrow>
                          middleware E p c
                          = (Raise e, p, [EvVerifyToken (ctx_authorization c), EvIldcpFetch])
                      | Inr i \<Rightarrow>
                          middleware E p c
                          = (Respond (Bytes (serializeIldcpResponse E
                               (i\<lparr>clientAddress := clientAddress i @ ''.'' @ ctx_peer_name c\<rparr>))),
                             p\<lparr>ildcp := Some i\<rparr>,
                             [EvVerifyToken (ctx_authorization c), EvIldcpFetch])))))
         \<and> (destination parsed \<noteq> ''peer.config'' \<longrightarrow>
               (case dataHandler p of
                  None \<Rightarrow>
                    middleware E p c
                    = (Throw 502 ''no handler registered.'', p,
                       [EvVerifyToken (ctx_authorization c)])
                | Some h \<Rightarrow>
                    middleware E p c
                    = ((case h (ctx_req c) of Inl e \<Rightarrow> Raise e | Inr b \<Rightarrow> Respond (Bytes b)),
                       p, [EvVerifyToken (ctx_authorization c), EvHandler (ctx_req c)])))"
  using assms
  by (simp add: middleware_def fetchIldcp_def dispatch_def Let_def
      split: option.splits sum.splits)

theorem discovery_interception_witness:
  "multi (sample_plugin True False ''https://example.com/%/ilp'' (Some sample_ildcp))
   \<and> connected (sample_plugin True False ''https://example.com/%/ilp'' (Some sample_ildcp))
   \<and> ctx_method (sample_ctx ''POST'' ''in-token'' (sample_prepare ''peer.config'')) \<noteq> ''GET''
   \<and> verifyToken sample_env (sample_plugin True False ''https://example.com/%/ilp'' (Some sample_ildcp))
        (ctx_authorization (sample_ctx ''POST'' ''in-token'' (sample_prepare ''peer.config'')))
   \<and> length (ctx_req (sample_ctx ''POST'' ''in-token'' (sample_prepare ''peer.config'')))
        \<le> MAX_ILP_PACKET_LENGTH
   \<and> deserializeIlpPrepare sample_env (ctx_req (sample_ctx ''POST'' ''in-token'' (sample_prepare ''peer.config'')))
        = Some \<lparr> destination = ''peer.config'' \<rparr>
   \<and> middleware sample_env (sample_plugin True False ''https://example.com/%/ilp'' (Some sample_ildcp))
        (sample_ctx ''POST'' ''in-token'' (sample_prepare ''peer.config''))
      = (Respond (Bytes (sample_serializeIldcp
           \<lparr> clientAddress = ''g.node1.bob'', assetScale = 9, assetCode = ''XRP'' \<rparr>)),
         sample_plugin True False ''https://example.com/%/ilp'' (Some sample_ildcp),
         [EvVerifyToken ''in-token''])"
proof -
  let ?P = "sample_plugin True False ''https://example.com/%/ilp'' (Some sample_ildcp)"
  let ?c = "sample_ctx ''POST'' ''in-token'' (sample_prepare ''peer.config'')"
  have h1: "multi ?P" and h2: "connected ?P"
    by (simp_all add: sample_plugin_fields)
  have h3: "ctx_method ?c \<noteq> ''GET''"
    by (simp add: sample_ctx_def)
  have h4: "verifyToken sample_env ?P (ctx_authorization ?c)"
    by (simp add: sample_ctx_def sample_plugin_tokens)
  have h5: "length (ctx_req ?c) \<le> MAX_ILP_PACKET_LENGTH"
    by (simp add: sample_ctx_def sample_prepare_def sample_bytes_def MAX_ILP_PACKET_LENGTH_def)
  have h6: "deserializeIlpPrepare sample_env (ctx_req ?c) = Some \<lparr> destination = ''peer.config'' \<rparr>"
    by (simp add: sample_ctx_def sample_env_fields sample_deserialize_prepare)
  have r: "middleware sample_env ?P ?c
      = (Respond (Bytes (sample_serializeIldcp
           \<lparr> clientAddress = ''g.node1.bob'', assetScale = 9, assetCode = ''XRP'' \<rparr>)),
         ?P, [EvVerifyToken ''in-token''])"
    using discovery_interception [OF h1 h2 h3 h4 h5 h6]
    by (simp add: sample_plugin_fields sample_env_fields sample_ildcp_def sample_ctx_def)
  show ?thesis using h1 h2 h3 h4 h5 h6 r by simp
qed

text \<open>
  C2 as stated fails: with an empty configuration cache and no handler registered, an
  authenticated \<^verbatim>\<open>peer.config\<close> request is not answered with a discovery response.
\<close>

theorem discovery_without_cache_counterexample:
  "multi (sample_plugin True False ''https://example.com/%/ilp'' None)
   \<and> connected (sample_plugin True False ''https://example.com/%/ilp'' None)
   \<and> verifyToken sample_env (sample_plugin True False ''https://example.com/%/ilp'' None) ''in-token''
   \<and> deserializeIlpPrepare sample_env (sample_prepare ''peer.config'')
        = Some \<lparr> destination = ''peer.config'' \<rparr>
   \<and> middleware sample_env (sample_plugin True False ''https://example.com/%/ilp'' None)
        (sample_ctx ''POST'' ''in-token'' (sample_prepare ''peer.config''))
      = (Raise NoHandlerForIldcp, sample_plugin True False ''https://example.com/%/ilp'' None,
         [EvVerifyToken ''in-token''])"
proof -
  have len: "\<not> MAX_ILP_PACKET_LENGTH < length (sample_prepare ''peer.config'')"
    by (simp add: sample_prepare_def sample_bytes_def MAX_ILP_PACKET_LENGTH_def)
  show ?thesis
    using len
    by (simp add: middleware_def Let_def fetchIldcp_def sample_plugin_fields sample_plugin_tokens
          sample_ctx_def sample_env_fields sample_deserialize_prepare)
qed

subsection \<open>Routing keys and URL templates\<close>

lemma GetSubstitution_plain:
  "CHR ''$'' \<notin> set r \<Longrightarrow> GetSubstitution m pre post r = r"
  by (induction m pre post r rule: GetSubstitution.induct) auto

lemma segment_char_not_dollar: "segment_char c \<Longrightarrow> c \<noteq> CHR ''$''"
  by (auto simp add: segment_char_def)

lemma INVALID_SEGMENT_test_iff: "INVALID_SEGMENT_test s \<longleftrightarrow> (\<exists>c\<in>set s. \<not> segment_char c)"
  by (simp add: INVALID_SEGMENT_test_def list_ex_iff)

lemma replace_valid_segment:
  assumes "\<not> INVALID_SEGMENT_test seg"
  shows "replace s pat seg =
           (case indexOf s pat of
              None \<Rightarrow> s
            | Some k \<Rightarrow> take k s @ seg @ drop (k + length pat) s)"
proof -
  have "CHR ''$'' \<notin> set seg"
    using assms segment_char_not_dollar by (auto simp add: INVALID_SEGMENT_test_iff)
  then show ?thesis
    by (simp add: replace_def GetSubstitution_plain split: option.splits)
qed

lemma split_str_first:
  "split_str s d = takeWhile (\<lambda>c. c \<noteq> d) s # tl (split_str s d)"
  by (induction s) (auto split: list.splits)

lemma segment_of_takeWhile:
  "segment_of a dest = takeWhile (\<lambda>c. c \<noteq> CHR ''.'') (drop (length a + 1) dest)"
  by (subst segment_of_def, subst split_str_first) (simp add: substring_def)

lemma segment_of_under_address:
  "segment_of a (a @ ''.'' @ rest) = takeWhile (\<lambda>c. c \<noteq> CHR ''.'') rest"
  by (simp add: segment_of_takeWhile)

lemma fetchIldcp_cases:
  assumes "fetchIldcp E p = (r, p', evs)"
  shows "(p' = p \<or> (\<exists>i. p' = p\<lparr>ildcp := Some i\<rparr>)) \<and> (evs = [] \<or> evs = [EvIldcpFetch])"
  using assms by (auto simp add: fetchIldcp_def split: option.splits sum.splits)

lemma fetchIldcp_keeps:
  assumes "fetchIldcp E p = (r, p', evs)"
  shows "url p' = url p" "multiDelimiter p' = multiDelimiter p" "http2 p' = http2 p"
    "connected p' = connected p" "http2Clients p' = http2Clients p" "allocated p' = allocated p"
    "http2MaxRequestsPerSession p' = http2MaxRequestsPerSession p"
  using fetchIldcp_cases [OF assms] by auto

lemma fetchIldcp_no_network:
  assumes "fetchIldcp E p = (r, p', evs)"
  shows "\<not> list_ex network_event evs"
  using fetchIldcp_cases [OF assms] by auto

lemma generateUrl_result:
  assumes "fetchIldcp E p = (Inr i, p', evs)"
  shows "generateUrl E p dest =
           (if INVALID_SEGMENT_test (segment_of (clientAddress i) dest)
            then (Inl InvalidAddressSegment, p', evs)
            else (Inr (replace (url p) (multiDelimiter p) (segment_of (clientAddress i) dest)), p', evs))"
  using assms fetchIldcp_keeps(1,2) [OF assms] by (simp add: generateUrl_def Let_def)

lemma sendData_multi:
  assumes "connected p" and "multi p" and "getToken E p = Inr token"
    and "deserializeIlpPrepare E data = Some parsed"
    and "fetchIldcp E p = (Inr i, p', evs)"
  shows "sendData E p data =
     (if INVALID_SEGMENT_test (segment_of (clientAddress i) (destination parsed))
      then (Inl InvalidAddressSegment, p', EvGetToken # evs)
      else
        (case fetch E p'
                (replace (url p) (multiDelimiter p) (segment_of (clientAddress i) (destination parsed)))
                \<lparr> http_method = ''POST'', body = data,
                  headers = [(''Authorization'', token),
                             (''Content-Type'', ''application/ilp+octet-stream''),
                             (''ILP-Peer-Name'', name p)]
                            @ (if sendIlpDestination p
                               then [(''ILP-Destination'', destination parsed)] else []) \<rparr> of
           (r, p'', evs') \<Rightarrow>
             ((case r of
                 Inl e \<Rightarrow> Inl e
               | Inr res \<Rightarrow> if ok res then Inr (buffer res) else Inl (FailedToFetch (status res))),
              p'', EvGetToken # evs @ evs')))"
  using assms
  by (auto simp add: sendData_def resolveUrl_def generateUrl_result [OF assms(5)] Let_def
      split: prod.splits sum.splits)

text \<open>
  C1. For a Prepare packet sent in multi-tenant mode, the routing key is what follows the
  first \<open>n + 1\<close> characters of the destination, \<open>n\<close> being the length of the cached
  local address, up to the next dot; under the local address and a dot that is the next
  segment. A key with a character other than a letter, a digit, an underscore or a hyphen
  makes \<^verbatim>\<open>sendData\<close> fail with the invalid-address error before any network event;
  otherwise the request goes to the base URL with the first occurrence of the delimiter
  replaced by the key. The three examples of the specification are part of the statement.
\<close>

theorem multi_tenant_url:
  assumes "connected p" and "multi p" and "getToken E p = Inr token"
    and "deserializeIlpPrepare E data = Some parsed"
    and "fetchIldcp E p = (Inr i, p', evs)"
  shows "(\<forall>rest. destination parsed = clientAddress i @ ''.'' @ rest \<longrightarrow>
            segment_of (clientAddress i) (destination parsed) = takeWhile (\<lambda>c. c \<noteq> CHR ''.'') rest)
         \<and> (if \<exists>c\<in>set (segment_of (clientAddress i) (destination parsed)). \<not> segment_char c
            then sendData E p data = (Inl InvalidAddressSegment, p', EvGetToken # evs)
                 \<and> \<not> list_ex network_event (EvGetToken # evs)
            else sendData E p data =
              (case fetch E p'
                      (case indexOf (url p) (multiDelimiter p) of
                         None \<Rightarrow> url p
                       | Some k \<Rightarrow>
                           take k (url p)
                           @ segment_of (clientAddress i) (destination parsed)
                           @ drop (k + length (multiDelimiter p)) (url p))
                      \<lparr> http_method = ''POST'', body = data,
                        headers = [(''Authorization'', token),
                                   (''Content-Type'', ''application/ilp+octet-stream''),
                                   (''ILP-Peer-Name'', name p)]
                                  @ (if sendIlpDestination p
                                     then [(''ILP-Destination'', destination parsed)] else []) \<rparr> of
                 (r, p'', evs') \<Rightarrow>
                   ((case r of
                       Inl e \<Rightarrow> Inl e
                     | Inr res \<Rightarrow>
                         if ok res then Inr (buffer res) else Inl (FailedToFetch (status res))),
                    p'', EvGetToken # evs @ evs')))
         \<and> segment_of ''g.node1'' ''g.node1.alice.123'' = ''alice''
         \<and> INVALID_SEGMENT_test (segment_of ''g.node1'' ''g.node1.bad/seg.x'')
         \<and> replace ''https://example.com/%/ilp'' ''%'' ''alice'' = ''https://example.com/alice/ilp''"
proof -
  let ?seg = "segment_of (clientAddress i) (destination parsed)"
  have strip: "\<forall>rest. destination parsed = clientAddress i @ ''.'' @ rest \<longrightarrow>
      ?seg = takeWhile (\<lambda>c. c \<noteq> CHR ''.'') rest"
    using segment_of_under_address by simp
  have bad: "sendData E p data = (Inl InvalidAddressSegment, p', EvGetToken # evs)
      \<and> \<not> list_ex network_event (EvGetToken # evs)"
    if "\<exists>c\<in>set ?seg. \<not> segment_char c"
    using that sendData_multi [OF assms] fetchIldcp_no_network [OF assms(5)]
    by (simp add: INVALID_SEGMENT_test_iff)
  have good: "sendData E p data =
              (case fetch E p'
                      (case indexOf (url p) (multiDelimiter p) of
                         None \<Rightarrow> url p
                       | Some k \<Rightarrow> take k (url p) @ ?seg @ drop (k + length (multiDelimiter p)) (url p))
                      \<lparr> http_method = ''POST'', body = data,
                        headers = [(''Authorization'', token),
                                   (''Content-Type'', ''application/ilp+octet-stream''),
                                   (''ILP-Peer-Name'', name p)]
                                  @ (if sendIlpDestination p
                                     then [(''ILP-Destination'', destination parsed)] else []) \<rparr> of
                 (r, p'', evs') \<Rightarrow>
                   ((case r of
                       Inl e \<Rightarrow> Inl e
                     | Inr res \<Rightarrow>
                         if ok res then Inr (buffer res) else Inl (FailedToFetch (status res))),
                    p'', EvGetToken # evs @ evs'))"
    if "\<not> (\<exists>c\<in>set ?seg. \<not> segment_char c)"
  proof -
    have v: "\<not> INVALID_SEGMENT_test ?seg"
      using that by (simp add: INVALID_SEGMENT_test_iff)
    show ?thesis
      using sendData_multi [OF assms] v replace_valid_segment [OF v, of "url p" "multiDelimiter p"]
      by simp
  qed
  have ex1: "segment_of ''g.node1'' ''g.node1.alice.123'' = ''alice''"
    by (simp add: segment_of_takeWhile)
  have ex2: "INVALID_SEGMENT_test (segment_of ''g.node1'' ''g.node1.bad/seg.x'')"
    by (simp add: segment_of_takeWhile INVALID_SEGMENT_test_def segment_char_def)
  have ex3: "replace ''https://example.com/%/ilp'' ''%'' ''alice'' = ''https://example.com/alice/ilp''"
    by (simp add: replace_def)
  show ?thesis
    using strip bad good ex1 ex2 ex3 by presburger
qed

theorem multi_tenant_url_witness:
  "connected (sample_plugin True False ''https://example.com/%/ilp'' (Some sample_ildcp))
   \<and> multi (sample_plugin True False ''https://example.com/%/ilp'' (Some sample_ildcp))
   \<and> getToken sample_env (sample_plugin True False ''https://example.com/%/ilp'' (Some sample_ildcp))
       = Inr ''out-token''
   \<and> deserializeIlpPrepare sample_env (sample_prepare ''g.node1.alice.123'')
       = Some \<lparr> destination = ''g.node1.alice.123'' \<rparr>
   \<and> deserializeIlpPrepare sample_env (sample_prepare ''g.node1.bad/seg.x'')
       = Some \<lparr> destination = ''g.node1.bad/seg.x'' \<rparr>
   \<and> fetchIldcp sample_env (sample_plugin True False ''https://example.com/%/ilp'' (Some sample_ildcp))
       = (Inr sample_ildcp, sample_plugin True False ''https://example.com/%/ilp'' (Some sample_ildcp), [])
   \<and> sendData sample_env (sample_plugin True False ''https://example.com/%/ilp'' (Some sample_ildcp))
         (sample_prepare ''g.node1.alice.123'')
       = (Inr (sample_prepare ''g.node1.alice.123''),
          sample_plugin True False ''https://example.com/%/ilp'' (Some sample_ildcp),
          [EvGetToken,
           EvFetch ''https://example.com/alice/ilp''
             \<lparr> http_method = ''POST'', body = sample_prepare ''g.node1.alice.123'',
               headers = [(''Authorization'', ''out-token''),
                          (''Content-Type'', ''application/ilp+octet-stream''),
                          (''ILP-Peer-Name'', ''8080'')] \<rparr>])
   \<and> sendData sample_env (sample_plugin True False ''https://example.com/%/ilp'' (Some sample_ildcp))
         (sample_prepare ''g.node1.bad/seg.x'')
       = (Inl InvalidAddressSegment,
          sample_plugin True False ''https://example.com/%/ilp'' (Some sample_ildcp), [EvGetToken])"
proof -
  let ?P = "sample_plugin True False ''https://example.com/%/ilp'' (Some sample_ildcp)"
  have h1: "connected ?P" and h2: "multi ?P"
    by (simp_all add: sample_plugin_fields)
  have h3: "getToken sample_env ?P = Inr ''out-token''"
    by (simp add: sample_plugin_tokens)
  have h4: "deserializeIlpPrepare sample_env (sample_prepare ''g.node1.alice.123'')
      = Some \<lparr> destination = ''g.node1.alice.123'' \<rparr>"
    and h4': "deserializeIlpPrepare sample_env (sample_prepare ''g.node1.bad/seg.x'')
      = Some \<lparr> destination = ''g.node1.bad/seg.x'' \<rparr>"
    by (simp_all add: sample_env_fields sample_deserialize_prepare)
  have h5: "fetchIldcp sample_env ?P = (Inr sample_ildcp, ?P, [])"
    by (rule sample_fetchIldcp_cached)
  have good: "sendData sample_env ?P (sample_prepare ''g.node1.alice.123'')
       = (Inr (sample_prepare ''g.node1.alice.123''), ?P,
          [EvGetToken,
           EvFetch ''https://example.com/alice/ilp''
             \<lparr> http_method = ''POST'', body = sample_prepare ''g.node1.alice.123'',
               headers = [(''Authorization'', ''out-token''),
                          (''Content-Type'', ''application/ilp+octet-stream''),
                          (''ILP-Peer-Name'', ''8080'')] \<rparr>])"
    using multi_tenant_url [OF h1 h2 h3 h4 h5]
    by (simp add: sample_ildcp_def segment_of_takeWhile segment_char_def sample_plugin_fields
          sample_plugin_name fetch_def sample_env_fields sample_peer_def sample_prepare_nonempty)
  have bad: "sendData sample_env ?P (sample_prepare ''g.node1.bad/seg.x'')
       = (Inl InvalidAddressSegment, ?P, [EvGetToken])"
    using multi_tenant_url [OF h1 h2 h3 h4' h5]
    by (simp add: sample_ildcp_def segment_of_takeWhile segment_char_def)
  show ?thesis
    using h1 h2 h3 h4 h4' h5 good bad by simp
qed

text \<open>
  C9. An empty routing key passes the validation: the URL is the base URL with the first
  occurrence of the delimiter removed. The key is empty whenever the destination is no
  longer than the cached local address plus one character.
\<close>

theorem empty_segment_accepted:
  assumes "fetchIldcp E p = (Inr i, p', evs)"
  shows "(segment_of (clientAddress i) dest = [] \<longrightarrow>
            generateUrl E p dest
            = (Inr (case indexOf (url p) (multiDelimiter p) of
                      None \<Rightarrow> url p
                    | Some k \<Rightarrow> take k (url p) @ drop (k + length (multiDelimiter p)) (url p)),
               p', evs))
         \<and> (length dest \<le> length (clientAddress i) + 1 \<longrightarrow>
               segment_of (clientAddress i) dest = [])"
proof -
  have v: "\<not> INVALID_SEGMENT_test []"
    by (simp add: INVALID_SEGMENT_test_def)
  have "generateUrl E p dest
          = (Inr (case indexOf (url p) (multiDelimiter p) of
                    None \<Rightarrow> url p
                  | Some k \<Rightarrow> take k (url p) @ drop (k + length (multiDelimiter p)) (url p)),
             p', evs)"
    if "segment_of (clientAddress i) dest = []"
    using that v generateUrl_result [OF assms, of dest]
      replace_valid_segment [OF v, of "url p" "multiDelimiter p"]
    by (simp split: option.splits)
  moreover have "segment_of (clientAddress i) dest = []"
    if "length dest \<le> length (clientAddress i) + 1"
    using that by (simp add: segment_of_takeWhile)
  ultimately show ?thesis by blast
qed

theorem empty_segment_accepted_witness:
  "fetchIldcp sample_env (sample_plugin True False ''https://example.com/%/ilp'' (Some sample_ildcp))
     = (Inr sample_ildcp, sample_plugin True False ''https://example.com/%/ilp'' (Some sample_ildcp), [])
   \<and> length ''g.node1'' \<le> length (clientAddress sample_ildcp) + 1
   \<and> segment_of (clientAddress sample_ildcp) ''g.node1'' = []
   \<and> generateUrl sample_env (sample_plugin True False ''https://example.com/%/ilp'' (Some sample_ildcp))
        ''g.node1''
      = (Inr ''https://example.com//ilp'',
         sample_plugin True False ''https://example.com/%/ilp'' (Some sample_ildcp), [])"
proof -
  let ?P = "sample_plugin True False ''https://example.com/%/ilp'' (Some sample_ildcp)"
  have h: "fetchIldcp sample_env ?P = (Inr sample_ildcp, ?P, [])"
    by (rule sample_fetchIldcp_cached)
  have len: "length ''g.node1'' \<le> length (clientAddress sample_ildcp) + 1"
    by (simp add: sample_ildcp_def)
  from empty_segment_accepted [OF h, of "''g.node1''"] len
  have seg: "segment_of (clientAddress sample_ildcp) ''g.node1'' = []"
    by blast
  from empty_segment_accepted [OF h, of "''g.node1''"] seg
  have "generateUrl sample_env ?P ''g.node1''
      = (Inr (case indexOf (url ?P) (multiDelimiter ?P) of
                      None \<Rightarrow> url ?P
                    | Some k \<Rightarrow> take k (url ?P) @ drop (k + length (multiDelimiter ?P)) (url ?P)), ?P, [])"
    by blast
  then have gen: "generateUrl sample_env ?P ''g.node1'' = (Inr ''https://example.com//ilp'', ?P, [])"
    by (simp add: sample_plugin_fields)
  show ?thesis using h len seg gen by simp
qed

subsection \<open>The answer of the peer\<close>

text \<open>
  C5. When \<^verbatim>\<open>sendData\<close> has got a response from the transport, it fails exactly when the
  response is not \<^verbatim>\<open>ok\<close>, with the error that carries the status of the response, and
  otherwise returns the body of the response.
\<close>

theorem sendData_status:
  assumes "connected p" and "getToken E p = Inr token"
    and "resolveUrl E p data
           [(''Authorization'', token), (''Content-Type'', ''application/ilp+octet-stream''),
            (''ILP-Peer-Name'', name p)] = (Inr (u, hs), p', evs)"
    and "fetch E p' u \<lparr> http_method = ''POST'', body = data, headers = hs \<rparr> = (Inr res, p'', evs')"
  shows "((\<exists>e. fst (sendData E p data) = Inl e) \<longleftrightarrow> \<not> ok res)
         \<and> (if ok res then sendData E p data = (Inr (buffer res), p'', EvGetToken # evs @ evs')
            else sendData E p data = (Inl (FailedToFetch (status res)), p'', EvGetToken # evs @ evs'))"
  using assms by (simp add: sendData_def)

theorem sendData_status_witness:
  "connected (sample_plugin False False ''https://example.com/ilp'' None)
   \<and> getToken sample_env (sample_plugin False False ''https://example.com/ilp'' None) = Inr ''out-token''
   \<and> fst (fetch sample_env (sample_plugin False False ''https://example.com/ilp'' None)
        ''https://example.com/ilp''
        \<lparr> http_method = ''POST'', body = [],
          headers = [(''Authorization'', ''out-token''),
                     (''Content-Type'', ''application/ilp+octet-stream''),
                     (''ILP-Peer-Name'', ''8080'')] \<rparr>)
      = Inr \<lparr> ok = False, status = 400, buffer = [] \<rparr>
   \<and> fst (sendData sample_env (sample_plugin False False ''https://example.com/ilp'' None) [])
      = Inl (FailedToFetch 400)
   \<and> fst (fetch sample_env (sample_plugin False False ''https://example.com/ilp'' None)
        ''https://example.com/ilp''
        \<lparr> http_method = ''POST'', body = sample_prepare ''g.alice'',
          headers = [(''Authorization'', ''out-token''),
                     (''Content-Type'', ''application/ilp+octet-stream''),
                     (''ILP-Peer-Name'', ''8080'')] \<rparr>)
      = Inr \<lparr> ok = True, status = 200, buffer = sample_prepare ''g.alice'' \<rparr>
   \<and> fst (sendData sample_env (sample_plugin False False ''https://example.com/ilp'' None)
        (sample_prepare ''g.alice''))
      = Inr (sample_prepare ''g.alice'')"
proof -
  let ?P = "sample_plugin False False ''https://example.com/ilp'' None"
  let ?hs = "[(''Authorization'', ''out-token''),
              (''Content-Type'', ''application/ilp+octet-stream''),
              (''ILP-Peer-Name'', ''8080'')]"
  have h1: "connected ?P"
    by (simp add: sample_plugin_fields)
  have h2: "getToken sample_env ?P = Inr ''out-token''"
    by (simp add: sample_plugin_tokens)
  have h3: "resolveUrl sample_env ?P data
      [(''Authorization'', ''out-token''), (''Content-Type'', ''application/ilp+octet-stream''),
       (''ILP-Peer-Name'', name ?P)] = (Inr (''https://example.com/ilp'', ?hs), ?P, [])" for data
    by (simp add: sample_resolveUrl_single sample_plugin_name)
  have f: "fetch sample_env ?P ''https://example.com/ilp'' \<lparr> http_method = ''POST'', body = data, headers = ?hs \<rparr>
      = (sample_peer \<lparr> http_method = ''POST'', body = data, headers = ?hs \<rparr>, ?P,
         [EvFetch ''https://example.com/ilp'' \<lparr> http_method = ''POST'', body = data, headers = ?hs \<rparr>])" for data
    by (simp add: fetch_def sample_plugin_fields sample_env_fields)
  have f0: "fetch sample_env ?P ''https://example.com/ilp'' \<lparr> http_method = ''POST'', body = [], headers = ?hs \<rparr>
      = (Inr \<lparr> ok = False, status = 400, buffer = [] \<rparr>, ?P,
         [EvFetch ''https://example.com/ilp'' \<lparr> http_method = ''POST'', body = [], headers = ?hs \<rparr>])"
    by (simp add: f sample_peer_def)
  have f1: "fetch sample_env ?P ''https://example.com/ilp''
        \<lparr> http_method = ''POST'', body = sample_prepare ''g.alice'', headers = ?hs \<rparr>
      = (Inr \<lparr> ok = True, status = 200, buffer = sample_prepare ''g.alice'' \<rparr>, ?P,
         [EvFetch ''https://example.com/ilp''
            \<lparr> http_method = ''POST'', body = sample_prepare ''g.alice'', headers = ?hs \<rparr>])"
    by (simp add: f sample_peer_def sample_prepare_nonempty)
  have r0: "fst (sendData sample_env ?P []) = Inl (FailedToFetch 400)"
    using sendData_status [OF h1 h2 h3 f0] by simp
  have r1: "fst (sendData sample_env ?P (sample_prepare ''g.alice'')) = Inr (sample_prepare ''g.alice'')"
    using sendData_status [OF h1 h2 h3 f1] by simp
  show ?thesis
    using h1 h2 f0 f1 r0 r1 by simp
qed

subsection \<open>The request target over a pooled session\<close>

text \<open>
  C7. With the HTTP/2 transport the request is issued on the client of the URL's origin
  with the \<^verbatim>\<open>pathname\<close> of the URL and nothing else: the \<^verbatim>\<open>search\<close> part is not
  passed on. For \<^verbatim>\<open>https://example.com/ilp?tenant=a\<close> the pooled session is asked for
  \<^verbatim>\<open>/ilp\<close>, where the one-shot transport gets the whole URL with its query.
\<close>

theorem http2_request_uses_pathname:
  assumes "http2 p" and "parseURL E u = Some parsed"
  shows "\<exists>c p' evs.
           getHttp2ClientForOrigin p (origin parsed) = (c, p', evs)
           \<and> fetch E p u opts
             = (Http2Client_fetch E c (pathname parsed) opts, p',
                evs @ [EvHttp2Fetch (handle c) (pathname parsed) opts])"
  using assms by (cases "getHttp2ClientForOrigin p (origin parsed)") (simp add: fetch_def)

theorem http2_request_uses_pathname_witness:
  "http2 (sample_plugin False True ''https://example.com/ilp?tenant=a'' None)
   \<and> parseURL sample_env ''https://example.com/ilp?tenant=a''
       = Some \<lparr> origin = ''https://example.com'', pathname = ''/ilp'', search = ''?tenant=a'' \<rparr>
   \<and> snd (snd (fetch sample_env (sample_plugin False True ''https://example.com/ilp?tenant=a'' None)
         ''https://example.com/ilp?tenant=a''
         \<lparr> http_method = ''POST'', body = [1], headers = [] \<rparr>))
       = [EvHttp2New 0 ''https://example.com'' None,
          EvHttp2Fetch 0 ''/ilp'' \<lparr> http_method = ''POST'', body = [1], headers = [] \<rparr>]
   \<and> snd (snd (fetch sample_env (sample_plugin False False ''https://example.com/ilp?tenant=a'' None)
         ''https://example.com/ilp?tenant=a''
         \<lparr> http_method = ''POST'', body = [1], headers = [] \<rparr>))
       = [EvFetch ''https://example.com/ilp?tenant=a''
            \<lparr> http_method = ''POST'', body = [1], headers = [] \<rparr>]"
proof -
  let ?P = "sample_plugin False True ''https://example.com/ilp?tenant=a'' None"
  let ?x = "\<lparr> http_method = ''POST'', body = [1], headers = [] \<rparr>"
  have h1: "http2 ?P"
    by (simp add: sample_plugin_fields)
  have h2: "parseURL sample_env ''https://example.com/ilp?tenant=a''
       = Some \<lparr> origin = ''https://example.com'', pathname = ''/ilp'', search = ''?tenant=a'' \<rparr>"
    by (simp add: sample_env_fields sample_parseURL_ilp)
  have g: "getHttp2ClientForOrigin ?P ''https://example.com''
      = (Http2Client_new 0 ''https://example.com'' None,
         ?P\<lparr>http2Clients := [(''https://example.com'', Http2Client_new 0 ''https://example.com'' None)],
             allocated := Suc 0\<rparr>,
         [EvHttp2New 0 ''https://example.com'' None])"
    by (simp add: getHttp2ClientForOrigin_def sample_plugin_fields Let_def)
  have r: "snd (snd (fetch sample_env ?P ''https://example.com/ilp?tenant=a'' ?x))
       = [EvHttp2New 0 ''https://example.com'' None, EvHttp2Fetch 0 ''/ilp'' ?x]"
    using http2_request_uses_pathname [OF h1 h2, of ?x] g
    by (auto simp add: Http2Client_new_def)
  have s: "snd (snd (fetch sample_env (sample_plugin False False ''https://example.com/ilp?tenant=a'' None)
         ''https://example.com/ilp?tenant=a'' ?x))
       = [EvFetch ''https://example.com/ilp?tenant=a'' ?x]"
    by (simp add: fetch_def sample_plugin_fields)
  show ?thesis
    using h1 h2 r s by simp
qed

subsection \<open>The session table\<close>

lemma closeAll_table:
  "map (\<lambda>(orig, c). (orig, handle c)) (fst (closeAll t)) = map (\<lambda>(orig, c). (orig, handle c)) t"
  "list_all (\<lambda>(orig, c). closed c) (fst (closeAll t))"
  "list_all (\<lambda>(orig, c). client_origin c = orig) (fst (closeAll t))
   = list_all (\<lambda>(orig, c). client_origin c = orig) t"
  "snd (closeAll t) = map (\<lambda>(orig, c). EvHttp2Close (handle c)) t"
  by (induction t rule: closeAll.induct) (auto simp add: close_def split: prod.splits)

lemma map_of_handles:
  "map_of (handles p) orig = map_option handle (map_of (http2Clients p) orig)"
  by (simp add: handles_def map_of_map)

lemma pool_grows_refl: "pool_grows p p"
  by (simp add: pool_grows_def)

lemma pool_grows_ildcp: "pool_grows p (p\<lparr>ildcp := x\<rparr>)"
  by (simp add: pool_grows_def handles_def)

lemma pool_grows_from_ildcp: "pool_grows (p\<lparr>ildcp := x\<rparr>) p' \<Longrightarrow> pool_grows p p'"
  by (simp add: pool_grows_def handles_def)

lemma getHttp2ClientForOrigin_grows:
  assumes "getHttp2ClientForOrigin p orig = (c, p', evs)"
  shows "pool_grows p p'"
proof (cases "map_of (http2Clients p) orig")
  case None
  then have "orig \<notin> fst ` set (handles p)"
    by (metis map_of_eq_None_iff map_of_handles option.map_disc_iff)
  with None assms show ?thesis
    by (auto simp add: getHttp2ClientForOrigin_def pool_grows_def handles_def Let_def
        Http2Client_new_def)
next
  case (Some c')
  with assms show ?thesis
    by (auto simp add: getHttp2ClientForOrigin_def pool_grows_def)
qed

lemma fetch_grows:
  assumes "fetch E p u opts = (r, p', evs)"
  shows "pool_grows p p'"
  using assms getHttp2ClientForOrigin_grows
  by (auto simp add: fetch_def pool_grows_refl split: if_splits option.splits prod.splits)

lemma fetchIldcp_state:
  assumes "fetchIldcp E p = (r, p', evs)"
  shows "p' = p \<or> (\<exists>i. p' = p\<lparr>ildcp := Some i\<rparr>)"
  using assms by (auto simp add: fetchIldcp_def split: option.splits sum.splits)

lemma resolveUrl_state:
  assumes "resolveUrl E p data hs = (r, p', evs)"
  shows "p' = p \<or> (\<exists>i. p' = p\<lparr>ildcp := Some i\<rparr>)"
  using assms fetchIldcp_state
  by (auto simp add: resolveUrl_def generateUrl_def Let_def
      split: if_splits option.splits prod.splits sum.splits)

lemma sendData_grows:
  assumes "sendData E p data = (r, p', evs)"
  shows "pool_grows p p'"
proof (cases "connected p")
  case False
  with assms show ?thesis by (simp add: sendData_def pool_grows_refl)
next
  case True
  show ?thesis
  proof (cases "getToken E p")
    case (Inl e)
    with True assms show ?thesis by (simp add: sendData_def pool_grows_refl)
  next
    case (Inr token)
    obtain r1 p1 evs1 where res: "resolveUrl E p data
        [(''Authorization'', token), (''Content-Type'', ''application/ilp+octet-stream''),
         (''ILP-Peer-Name'', name p)] = (r1, p1, evs1)"
      by (metis prod_cases3)
    have p1: "p1 = p \<or> (\<exists>i. p1 = p\<lparr>ildcp := Some i\<rparr>)"
      using resolveUrl_state [OF res] .
    then have g1: "pool_grows p p1"
      using pool_grows_refl pool_grows_ildcp by auto
    show ?thesis
    proof (cases r1)
      case (Inl e)
      with True Inr res assms g1 show ?thesis by (simp add: sendData_def)
    next
      case (Inr uh)
      obtain u hs where uh: "uh = (u, hs)" by (cases uh)
      obtain r2 p2 evs2 where f: "fetch E p1 u \<lparr> http_method = ''POST'', body = data, headers = hs \<rparr>
          = (r2, p2, evs2)"
        by (metis prod_cases3)
      have "p' = p2"
        using True \<open>getToken E p = Inr token\<close> res Inr uh f assms
        by (auto simp add: sendData_def split: sum.splits if_splits)
      moreover have "pool_grows p p2"
        using fetch_grows [OF f] p1 pool_grows_from_ildcp by auto
      ultimately show ?thesis by simp
    qed
  qed
qed

lemma middleware_state:
  assumes "middleware E p c = (r, p', evs)"
  shows "p' = p \<or> (\<exists>i. p' = p\<lparr>ildcp := Some i\<rparr>)"
  using assms fetchIldcp_state
  by (auto simp add: middleware_def dispatch_def Let_def
      split: if_splits option.splits prod.splits sum.splits)

lemma disconnect_table:
  "handles (fst (disconnect p)) = handles p"
  "allocated (fst (disconnect p)) = allocated p"
  "http2 (fst (disconnect p)) = http2 p"
  "list_all (\<lambda>(orig, c). client_origin c = orig) (http2Clients (fst (disconnect p)))
   = list_all (\<lambda>(orig, c). client_origin c = orig) (http2Clients p)"
  using closeAll_table(1,3) [of "http2Clients p"]
  by (auto simp add: disconnect_def handles_def split: prod.splits)

lemma step_grows: "pool_grows p (step E p op)"
proof (cases op)
  case Connect
  then show ?thesis by (simp add: connect_def pool_grows_def handles_def)
next
  case Disconnect
  then show ?thesis by (simp add: pool_grows_def disconnect_table)
next
  case (SendData data)
  then show ?thesis
    using sendData_grows [of E p data] by (metis fst_conv snd_conv prod_cases3 step.simps(3))
next
  case (Request c)
  obtain r p' evs where m: "middleware E p c = (r, p', evs)"
    by (metis prod_cases3)
  from middleware_state [OF m] Request m show ?thesis
    using pool_grows_refl pool_grows_ildcp by auto
next
  case (RegisterDataHandler h)
  then show ?thesis by (simp add: registerDataHandler_def pool_grows_def handles_def)
next
  case DeregisterDataHandler
  then show ?thesis by (simp add: deregisterDataHandler_def pool_grows_def handles_def)
next
  case RegisterMoneyHandler
  then show ?thesis by (simp add: registerMoneyHandler_def pool_grows_refl)
next
  case DeregisterMoneyHandler
  then show ?thesis by (simp add: deregisterMoneyHandler_def pool_grows_refl)
next
  case SendMoney
  then show ?thesis by (simp add: sendMoney_def pool_grows_refl)
qed

lemma pool_inv_grows:
  assumes "pool_inv p" and "pool_grows p p'"
  shows "pool_inv p'"
proof -
  have lt: "\<forall>x\<in>set (handles p). snd x < allocated p"
    using assms(1) by (auto simp add: pool_inv_def list_all_iff)
  then have fresh: "allocated p \<notin> snd ` set (handles p)"
    by auto
  have len: "length (http2Clients q) = length (handles q)" for q
    by (simp add: handles_def)
  have size: "length (http2Clients p') = allocated p'"
    using assms by (auto simp add: pool_inv_def pool_grows_def len)
  show ?thesis
    using assms lt fresh size
    by (auto simp add: pool_inv_def pool_grows_def list_all_iff less_Suc_eq)
qed

lemma handle_kept:
  assumes "pool_grows p p'" and "map_of (handles p) orig = Some h"
  shows "map_of (handles p') orig = Some h"
  using assms by (auto simp add: pool_grows_def map_of_append)

lemma pool_grows_http2: "pool_grows p p' \<Longrightarrow> http2 p' = http2 p"
  by (simp add: pool_grows_def)

lemma pool_inv_new: "pool_inv (PluginHttp_new opts)"
  by (simp add: pool_inv_def handles_def PluginHttp_new_def)

lemma foldl_step_facts:
  "(pool_inv p \<longrightarrow> pool_inv (foldl (step E) p ops))
   \<and> (map_of (handles p) orig = Some h \<longrightarrow> map_of (handles (foldl (step E) p ops)) orig = Some h)
   \<and> http2 (foldl (step E) p ops) = http2 p"
proof (induction ops arbitrary: p)
  case Nil
  show ?case by simp
next
  case (Cons op ops)
  show ?case
    using Cons.IH [of "step E p op"] step_grows [of p E op] pool_inv_grows handle_kept
      pool_grows_http2
    by fastforce
qed

lemma pool_inv_run: "pool_inv (run E opts ops)"
  using foldl_step_facts [of "PluginHttp_new opts" E ops] pool_inv_new
  by (simp add: run_def)

lemma keys_handles: "map fst (handles p) = map fst (http2Clients p)"
  by (simp add: handles_def case_prod_unfold comp_def)

lemma getHttp2ClientForOrigin_handle:
  assumes "getHttp2ClientForOrigin p orig = (c, p', evs)"
  shows "(map_of (handles p) orig = Some (handle c) \<and> evs = [])
         \<or> (map_of (handles p) orig = None \<and> handle c = allocated p
            \<and> evs = [EvHttp2New (allocated p) orig (http2MaxRequestsPerSession p)])"
  using assms
  by (auto simp add: getHttp2ClientForOrigin_def map_of_handles Let_def Http2Client_new_def
      split: option.splits)

lemma getHttp2ClientForOrigin_stored:
  assumes "getHttp2ClientForOrigin p orig = (c, p', evs)"
  shows "map_of (handles p') orig = Some (handle c)"
proof (cases "map_of (http2Clients p) orig")
  case None
  then have "map_of (handles p) orig = None"
    by (simp add: map_of_handles)
  with None assms show ?thesis
    by (auto simp add: getHttp2ClientForOrigin_def handles_def Let_def Http2Client_new_def
        map_of_append map_add_def)
next
  case (Some c')
  with assms show ?thesis
    by (auto simp add: getHttp2ClientForOrigin_def map_of_handles)
qed

lemma pool_inv_inj:
  assumes "pool_inv q" and "map_of (handles q) o1 = Some h" and "map_of (handles q) o2 = Some h"
  shows "o1 = o2"
proof -
  have d: "distinct (map snd (handles q))"
    using assms(1) by (simp add: pool_inv_def)
  have m1: "(o1, h) \<in> set (handles q)" and m2: "(o2, h) \<in> set (handles q)"
    using assms(2,3) by (auto dest: map_of_SomeD)
  have "inj_on snd (set (handles q))"
    using d by (simp add: distinct_map)
  from inj_onD [OF this, of "(o1, h)" "(o2, h)"] m1 m2 show ?thesis
    by simp
qed

lemma pool_inv_bound:
  assumes "pool_inv q" and "map_of (handles q) orig = Some h"
  shows "h < allocated q"
  using assms by (auto simp add: pool_inv_def list_all_iff dest: map_of_SomeD)

lemma fetch_http2:
  assumes "http2 p" and "parseURL E u = Some parsed"
    and "fetch E p u opts = (r, p', evs)"
  shows "\<exists>c es. getHttp2ClientForOrigin p (origin parsed) = (c, p', es)
           \<and> evs = es @ [EvHttp2Fetch (handle c) (pathname parsed) opts]"
  using assms by (auto simp add: fetch_def split: prod.splits)

lemma getHttp2ClientForOrigin_client:
  assumes "getHttp2ClientForOrigin p orig = (c, p', evs)"
  shows "map_of (http2Clients p') orig = Some c"
proof (cases "map_of (http2Clients p) orig")
  case None
  with assms show ?thesis
    by (auto simp add: getHttp2ClientForOrigin_def Let_def map_of_append map_add_def)
next
  case (Some c')
  with assms show ?thesis
    by (auto simp add: getHttp2ClientForOrigin_def)
qed

lemma getHttp2ClientForOrigin_reuse:
  assumes "getHttp2ClientForOrigin p orig = (c, p', evs)"
    and "map_of (handles p) orig = Some h"
  shows "p' = p \<and> evs = [] \<and> handle c = h"
  using assms
  by (auto simp add: getHttp2ClientForOrigin_def map_of_handles split: option.splits)

lemma pool_inv_origin:
  assumes "pool_inv q" and "map_of (http2Clients q) orig = Some c"
  shows "client_origin c = orig"
  using assms by (auto simp add: pool_inv_def list_all_iff dest: map_of_SomeD)

text \<open>
  C6. With the HTTP/2 transport, in every state reached by a history of operations on a
  fresh plug-in the session table holds each origin once, and it holds every session
  that was ever opened. The table starts empty. A fetch opens a session exactly when the
  table has none for the origin of the URL, and the session it uses is in the table
  afterwards, under that origin, and stays there with the same handle through any later
  operations. Of two fetches, however many operations lie between them, both use the same
  handle exactly when their URLs have the same origin; the later fetch to the same origin
  opens no session and leaves the table as it was.
\<close>

theorem pool_one_session_per_origin:
  assumes "p = run E opts ops" and "http2 p"
    and "parseURL E u1 = Some a" and "parseURL E u2 = Some b"
    and "fetch E p u1 x1 = (r1, p1, evs1)"
    and "fetch E (foldl (step E) p1 later) u2 x2 = (r2, p2, evs2)"
  shows "distinct (map fst (http2Clients p))
         \<and> http2Clients (run E opts []) = []
         \<and> ((\<exists>h lim. EvHttp2New h (origin a) lim \<in> set evs1)
              \<longleftrightarrow> map_of (http2Clients p) (origin a) = None)
         \<and> (\<exists>h1 h2. last evs1 = EvHttp2Fetch h1 (pathname a) x1
                    \<and> last evs2 = EvHttp2Fetch h2 (pathname b) x2
                    \<and> (h1 = h2 \<longleftrightarrow> origin a = origin b)
                    \<and> evs1 = (if map_of (http2Clients p) (origin a) = None
                               then [EvHttp2New h1 (origin a) (http2MaxRequestsPerSession p)]
                               else [])
                              @ [EvHttp2Fetch h1 (pathname a) x1]
                    \<and> (\<exists>c1. map_of (http2Clients p1) (origin a) = Some c1
                              \<and> handle c1 = h1 \<and> client_origin c1 = origin a)
                    \<and> map_of (handles (foldl (step E) p1 later)) (origin a) = Some h1
                    \<and> (\<exists>c2. map_of (http2Clients p2) (origin b) = Some c2
                              \<and> handle c2 = h2 \<and> client_origin c2 = origin b)
                    \<and> map_of (handles p2) (origin a) = Some h1
                    \<and> (origin a = origin b \<longrightarrow>
                          evs2 = [EvHttp2Fetch h1 (pathname b) x2]
                          \<and> p2 = foldl (step E) p1 later))
         \<and> distinct (map fst (http2Clients p1))
         \<and> distinct (map fst (http2Clients (foldl (step E) p1 later)))
         \<and> distinct (map fst (http2Clients p2))
         \<and> length (http2Clients p) = allocated p
         \<and> length (http2Clients p1) = allocated p1
         \<and> length (http2Clients p2) = allocated p2"
proof -
  let ?q = "foldl (step E) p1 later"
  have inv: "pool_inv p"
    using assms(1) pool_inv_run by simp
  have init: "http2Clients (run E opts []) = []"
    by (simp add: run_def PluginHttp_new_def)
  obtain c1 es1 where g1: "getHttp2ClientForOrigin p (origin a) = (c1, p1, es1)"
    and e1: "evs1 = es1 @ [EvHttp2Fetch (handle c1) (pathname a) x1]"
    using fetch_http2 [OF assms(2,3,5)] by blast
  have lazy: "(\<exists>h lim. EvHttp2New h (origin a) lim \<in> set evs1)
      \<longleftrightarrow> map_of (http2Clients p) (origin a) = None"
    using getHttp2ClientForOrigin_handle [OF g1] e1
    by (auto simp add: map_of_handles)
  have ev1: "evs1 = (if map_of (http2Clients p) (origin a) = None
                     then [EvHttp2New (handle c1) (origin a) (http2MaxRequestsPerSession p)]
                     else [])
                    @ [EvHttp2Fetch (handle c1) (pathname a) x1]"
    using getHttp2ClientForOrigin_handle [OF g1] e1
    by (auto simp add: map_of_handles)
  have grow1: "pool_grows p p1"
    using getHttp2ClientForOrigin_grows [OF g1] .
  have inv1: "pool_inv p1"
    using pool_inv_grows [OF inv grow1] .
  have cl1: "map_of (http2Clients p1) (origin a) = Some c1"
    using getHttp2ClientForOrigin_client [OF g1] .
  have or1: "client_origin c1 = origin a"
    using pool_inv_origin [OF inv1 cl1] .
  have st1: "map_of (handles p1) (origin a) = Some (handle c1)"
    using getHttp2ClientForOrigin_stored [OF g1] .
  have invq: "pool_inv ?q" and stq: "map_of (handles ?q) (origin a) = Some (handle c1)"
    and h2q: "http2 ?q"
    using foldl_step_facts [of p1 E later "origin a" "handle c1"] inv1 st1
      pool_grows_http2 [OF grow1] assms(2)
    by auto
  obtain c2 es2 where g2: "getHttp2ClientForOrigin ?q (origin b) = (c2, p2, es2)"
    and e2: "evs2 = es2 @ [EvHttp2Fetch (handle c2) (pathname b) x2]"
    using fetch_http2 [OF h2q assms(4,6)] by blast
  have grow2: "pool_grows ?q p2"
    using getHttp2ClientForOrigin_grows [OF g2] .
  have inv2: "pool_inv p2"
    using pool_inv_grows [OF invq grow2] .
  have cl2: "map_of (http2Clients p2) (origin b) = Some c2"
    using getHttp2ClientForOrigin_client [OF g2] .
  have or2: "client_origin c2 = origin b"
    using pool_inv_origin [OF inv2 cl2] .
  have st2: "map_of (handles p2) (origin a) = Some (handle c1)"
    using handle_kept [OF grow2 stq] .
  have same: "handle c1 = handle c2 \<longleftrightarrow> origin a = origin b"
  proof
    assume eq: "handle c1 = handle c2"
    from getHttp2ClientForOrigin_handle [OF g2]
    show "origin a = origin b"
    proof
      assume "map_of (handles ?q) (origin b) = Some (handle c2) \<and> es2 = []"
      then show ?thesis
        using pool_inv_inj [OF invq stq] eq by simp
    next
      assume "map_of (handles ?q) (origin b) = None \<and> handle c2 = allocated ?q
          \<and> es2 = [EvHttp2New (allocated ?q) (origin b) (http2MaxRequestsPerSession ?q)]"
      then show ?thesis
        using pool_inv_bound [OF invq stq] eq by simp
    qed
  next
    assume "origin a = origin b"
    then show "handle c1 = handle c2"
      using getHttp2ClientForOrigin_handle [OF g2] stq by auto
  qed
  have reuse: "evs2 = [EvHttp2Fetch (handle c1) (pathname b) x2] \<and> p2 = ?q"
    if "origin a = origin b"
    using that getHttp2ClientForOrigin_reuse [OF g2, of "handle c1"] stq e2 by simp
  have l1: "last evs1 = EvHttp2Fetch (handle c1) (pathname a) x1"
    and l2: "last evs2 = EvHttp2Fetch (handle c2) (pathname b) x2"
    using e1 e2 by simp_all
  have pair: "\<exists>h1 h2. last evs1 = EvHttp2Fetch h1 (pathname a) x1
                    \<and> last evs2 = EvHttp2Fetch h2 (pathname b) x2
                    \<and> (h1 = h2 \<longleftrightarrow> origin a = origin b)
                    \<and> evs1 = (if map_of (http2Clients p) (origin a) = None
                               then [EvHttp2New h1 (origin a) (http2MaxRequestsPerSession p)]
                               else [])
                              @ [EvHttp2Fetch h1 (pathname a) x1]
                    \<and> (\<exists>c1. map_of (http2Clients p1) (origin a) = Some c1
                              \<and> handle c1 = h1 \<and> client_origin c1 = origin a)
                    \<and> map_of (handles (foldl (step E) p1 later)) (origin a) = Some h1
                    \<and> (\<exists>c2. map_of (http2Clients p2) (origin b) = Some c2
                              \<and> handle c2 = h2 \<and> client_origin c2 = origin b)
                    \<and> map_of (handles p2) (origin a) = Some h1
                    \<and> (origin a = origin b \<longrightarrow>
                          evs2 = [EvHttp2Fetch h1 (pathname b) x2]
                          \<and> p2 = foldl (step E) p1 later)"
    using l1 l2 same ev1 cl1 or1 stq cl2 or2 st2 reuse
    by (intro exI [of _ "handle c1"] exI [of _ "handle c2"]) blast
  have keys: "distinct (map fst (http2Clients p))" "distinct (map fst (http2Clients p1))"
    "distinct (map fst (http2Clients ?q))" "distinct (map fst (http2Clients p2))"
    using inv inv1 invq inv2 by (simp_all add: pool_inv_def keys_handles)
  have sizes: "length (http2Clients p) = allocated p" "length (http2Clients p1) = allocated p1"
    "length (http2Clients p2) = allocated p2"
    using inv inv1 inv2 by (simp_all add: pool_inv_def)
  show ?thesis
    using keys init lazy pair sizes by blast
qed

theorem pool_one_session_per_origin_witness:
  "http2 (run sample_env (sample_opts False True ''https://example.com/ilp'' None) [Connect])
   \<and> parseURL sample_env ''https://example.com/ilp''
       = Some \<lparr> origin = ''https://example.com'', pathname = ''/ilp'', search = [] \<rparr>
   \<and> parseURL sample_env ''https://example.com/b?x=1''
       = Some \<lparr> origin = ''https://example.com'', pathname = ''/b'', search = ''?x=1'' \<rparr>
   \<and> parseURL sample_env ''https://other.org/ilp''
       = Some \<lparr> origin = ''https://other.org'', pathname = ''/ilp'', search = [] \<rparr>
   \<and> snd (snd (fetch sample_env
          (run sample_env (sample_opts False True ''https://example.com/ilp'' None) [Connect])
          ''https://example.com/ilp'' \<lparr> http_method = ''POST'', body = [1], headers = [] \<rparr>))
       = [EvHttp2New 0 ''https://example.com'' None,
          EvHttp2Fetch 0 ''/ilp'' \<lparr> http_method = ''POST'', body = [1], headers = [] \<rparr>]
   \<and> handles (fst (snd (fetch sample_env
          (run sample_env (sample_opts False True ''https://example.com/ilp'' None) [Connect])
          ''https://example.com/ilp'' \<lparr> http_method = ''POST'', body = [1], headers = [] \<rparr>)))
       = [(''https://example.com'', 0)]
   \<and> snd (snd (fetch sample_env
          (foldl (step sample_env)
             (fst (snd (fetch sample_env
                (run sample_env (sample_opts False True ''https://example.com/ilp'' None) [Connect])
                ''https://example.com/ilp'' \<lparr> http_method = ''POST'', body = [1], headers = [] \<rparr>)))
             [Disconnect, Connect])
          ''https://example.com/b?x=1'' \<lparr> http_method = ''POST'', body = [2], headers = [] \<rparr>))
       = [EvHttp2Fetch 0 ''/b'' \<lparr> http_method = ''POST'', body = [2], headers = [] \<rparr>]
   \<and> handles (fst (snd (fetch sample_env
          (foldl (step sample_env)
             (fst (snd (fetch sample_env
                (run sample_env (sample_opts False True ''https://example.com/ilp'' None) [Connect])
                ''https://example.com/ilp'' \<lparr> http_method = ''POST'', body = [1], headers = [] \<rparr>)))
             [Disconnect, Connect])
          ''https://example.com/b?x=1'' \<lparr> http_method = ''POST'', body = [2], headers = [] \<rparr>)))
       = [(''https://example.com'', 0)]
   \<and> snd (snd (fetch sample_env
          (foldl (step sample_env)
             (fst (snd (fetch sample_env
                (run sample_env (sample_opts False True ''https://example.com/ilp'' None) [Connect])
                ''https://example.com/ilp'' \<lparr> http_method = ''POST'', body = [1], headers = [] \<rparr>)))
             [Disconnect, Connect])
          ''https://other.org/ilp'' \<lparr> http_method = ''POST'', body = [2], headers = [] \<rparr>))
       = [EvHttp2New 1 ''https://other.org'' None,
          EvHttp2Fetch 1 ''/ilp'' \<lparr> http_method = ''POST'', body = [2], headers = [] \<rparr>]
   \<and> handles (fst (snd (fetch sample_env
          (foldl (step sample_env)
             (fst (snd (fetch sample_env
                (run sample_env (sample_opts False True ''https://example.com/ilp'' None) [Connect])
                ''https://example.com/ilp'' \<lparr> http_method = ''POST'', body = [1], headers = [] \<rparr>)))
             [Disconnect, Connect])
          ''https://other.org/ilp'' \<lparr> http_method = ''POST'', body = [2], headers = [] \<rparr>)))
       = [(''https://example.com'', 0), (''https://other.org'', 1)]"
proof -
  let ?P = "run sample_env (sample_opts False True ''https://example.com/ilp'' None) [Connect]"
  let ?x1 = "\<lparr> http_method = ''POST'', body = [1], headers = [] \<rparr>"
  let ?x2 = "\<lparr> http_method = ''POST'', body = [2], headers = [] \<rparr>"
  let ?f1 = "fetch sample_env ?P ''https://example.com/ilp'' ?x1"
  let ?q = "foldl (step sample_env) (fst (snd ?f1)) [Disconnect, Connect]"
  let ?fb = "fetch sample_env ?q ''https://example.com/b?x=1'' ?x2"
  let ?fc = "fetch sample_env ?q ''https://other.org/ilp'' ?x2"
  have h2: "http2 ?P"
    by (simp add: sample_run_connect sample_plugin_fields)
  have ua: "parseURL sample_env ''https://example.com/ilp''
       = Some \<lparr> origin = ''https://example.com'', pathname = ''/ilp'', search = [] \<rparr>"
    and ub: "parseURL sample_env ''https://example.com/b?x=1''
       = Some \<lparr> origin = ''https://example.com'', pathname = ''/b'', search = ''?x=1'' \<rparr>"
    and uc: "parseURL sample_env ''https://other.org/ilp''
       = Some \<lparr> origin = ''https://other.org'', pathname = ''/ilp'', search = [] \<rparr>"
    by (simp_all add: sample_env_fields sample_parseURL_paths)
  have f1: "?f1 = (fst ?f1, fst (snd ?f1), snd (snd ?f1))"
    and fb: "?fb = (fst ?fb, fst (snd ?fb), snd (snd ?fb))"
    and fc: "?fc = (fst ?fc, fst (snd ?fc), snd (snd ?fc))"
    by simp_all
  have none: "map_of (http2Clients ?P) ''https://example.com'' = None"
    by (simp add: sample_run_connect sample_plugin_fields)
  have lim: "http2MaxRequestsPerSession ?P = None"
    by (simp add: sample_run_connect sample_plugin_fields)
  have alloc: "allocated ?P = 0"
    by (simp add: sample_run_connect sample_plugin_fields)
  have e1: "snd (snd ?f1) = [EvHttp2New 0 ''https://example.com'' None, EvHttp2Fetch 0 ''/ilp'' ?x1]"
    by (simp add: fetch_def h2 ua getHttp2ClientForOrigin_def none lim alloc Let_def
          Http2Client_new_def)
  have t1: "handles (fst (snd ?f1)) = [(''https://example.com'', 0)]"
    by (simp add: fetch_def h2 ua getHttp2ClientForOrigin_def none lim alloc Let_def
          Http2Client_new_def handles_def sample_run_connect sample_plugin_fields)
  from pool_one_session_per_origin [OF refl h2 ua ub f1 fb] e1
  have eb: "snd (snd ?fb) = [EvHttp2Fetch 0 ''/b'' ?x2]" and pb: "fst (snd ?fb) = ?q"
    and tq: "map_of (handles ?q) ''https://example.com'' = Some 0"
    and dq: "distinct (map fst (http2Clients ?q))"
    by auto
  define q where "q = ?q"
  have q: "q = (fst (snd ?f1))
      \<lparr>http2Clients := [(''https://example.com'',
          \<lparr> handle = 0, client_origin = ''https://example.com'', maxRequestsPerSession = None,
            closed = True \<rparr>)], connected := True, httpServer := True\<rparr>"
    unfolding q_def
    by (simp add: fetch_def h2 ua getHttp2ClientForOrigin_def none lim alloc Let_def
          Http2Client_new_def disconnect_def connect_def close_def sample_run_connect
          sample_plugin_fields)
  have tq': "handles q = [(''https://example.com'', 0)]"
    by (subst q) (simp add: handles_def)
  have h2q: "http2 q" and limq: "http2MaxRequestsPerSession q = None"
    and allocq: "allocated q = Suc 0"
    and noneq: "map_of (http2Clients q) ''https://other.org'' = None"
    by (subst q, simp add: fetch_def h2 ua getHttp2ClientForOrigin_def none lim alloc Let_def
          sample_run_connect sample_plugin_fields)+
  have tb: "handles (fst (snd ?fb)) = [(''https://example.com'', 0)]"
    using pb tq' by (simp add: q_def)
  have ec': "snd (snd (fetch sample_env q ''https://other.org/ilp'' ?x2))
      = [EvHttp2New 1 ''https://other.org'' None, EvHttp2Fetch 1 ''/ilp'' ?x2]"
    by (simp add: fetch_def h2q uc getHttp2ClientForOrigin_def noneq limq allocq Let_def
          Http2Client_new_def)
  have tc': "handles (fst (snd (fetch sample_env q ''https://other.org/ilp'' ?x2)))
      = [(''https://example.com'', 0), (''https://other.org'', 1)]"
    using tq'
    by (simp add: fetch_def h2q uc getHttp2ClientForOrigin_def noneq limq allocq Let_def
          Http2Client_new_def handles_def)
  show ?thesis
    using h2 ua ub uc e1 t1 eb tb ec' [unfolded q_def] tc' [unfolded q_def] by blast
qed

subsection \<open>Disconnecting\<close>

text \<open>
  C8, as amended. \<^verbatim>\<open>disconnect\<close> from the connected state closes every pooled session,
  one \<^verbatim>\<open>close\<close> per handle and no session left open, and marks the plug-in
  disconnected; the table keeps every origin with the handle it had.
\<close>

theorem disconnect_closes_sessions:
  assumes "connected p"
  shows "list_all (\<lambda>(orig, c). closed c) (http2Clients (fst (disconnect p)))
         \<and> handles (fst (disconnect p)) = handles p
         \<and> \<not> connected (fst (disconnect p))
         \<and> snd (disconnect p)
            = map (\<lambda>(orig, h). EvHttp2Close h) (handles p) @ [EvServerClose, EvEmit ''disconnect'']"
  using assms closeAll_table(1,2,4) [of "http2Clients p"]
  by (auto simp add: disconnect_def disconnect_table handles_def case_prod_unfold comp_def
      split: prod.splits)

theorem disconnect_closes_sessions_witness:
  "connected (fst (snd (sendData sample_env (sample_plugin False True ''https://example.com/ilp'' None)
      (sample_prepare ''g.alice''))))
   \<and> http2Clients (fst (snd (sendData sample_env (sample_plugin False True ''https://example.com/ilp'' None)
      (sample_prepare ''g.alice''))))
     = [(''https://example.com'',
         \<lparr> handle = 0, client_origin = ''https://example.com'', maxRequestsPerSession = None,
           closed = False \<rparr>)]
   \<and> http2Clients (fst (disconnect (fst (snd (sendData sample_env
        (sample_plugin False True ''https://example.com/ilp'' None) (sample_prepare ''g.alice''))))))
     = [(''https://example.com'',
         \<lparr> handle = 0, client_origin = ''https://example.com'', maxRequestsPerSession = None,
           closed = True \<rparr>)]
   \<and> snd (disconnect (fst (snd (sendData sample_env
        (sample_plugin False True ''https://example.com/ilp'' None) (sample_prepare ''g.alice'')))))
     = [EvHttp2Close 0, EvServerClose, EvEmit ''disconnect'']"
proof -
  let ?P1 = "fst (snd (sendData sample_env (sample_plugin False True ''https://example.com/ilp'' None)
      (sample_prepare ''g.alice'')))"
  have c: "connected ?P1"
    by (simp add: sample_sendData_http2 sample_plugin_fields)
  have t: "http2Clients ?P1
     = [(''https://example.com'',
         \<lparr> handle = 0, client_origin = ''https://example.com'', maxRequestsPerSession = None,
           closed = False \<rparr>)]"
    by (simp add: sample_sendData_http2 Http2Client_new_def)
  have d: "http2Clients (fst (disconnect ?P1))
     = [(''https://example.com'',
         \<lparr> handle = 0, client_origin = ''https://example.com'', maxRequestsPerSession = None,
           closed = True \<rparr>)]"
    using c t by (simp add: disconnect_def close_def)
  have e: "snd (disconnect ?P1) = [EvHttp2Close 0, EvServerClose, EvEmit ''disconnect'']"
    using disconnect_closes_sessions [OF c] t by (simp add: handles_def)
  show ?thesis
    using c t d e by simp
qed

text \<open>
  C8 as stated fails: a handle that was in the table before \<^verbatim>\<open>disconnect\<close> is still
  there afterwards.
\<close>

theorem disconnect_keeps_table_counterexample:
  "connected (fst (snd (sendData sample_env (sample_plugin False True ''https://example.com/ilp'' None)
      (sample_prepare ''g.alice''))))
   \<and> handles (fst (snd (sendData sample_env (sample_plugin False True ''https://example.com/ilp'' None)
      (sample_prepare ''g.alice''))))
     = [(''https://example.com'', 0)]
   \<and> handles (fst (disconnect (fst (snd (sendData sample_env
        (sample_plugin False True ''https://example.com/ilp'' None) (sample_prepare ''g.alice''))))))
     = [(''https://example.com'', 0)]"
  by (simp add: sample_sendData_http2 sample_plugin_fields disconnect_def handles_def close_def
        Http2Client_new_def)

end
